theory Spec2Isabelle
  imports Main "HOL-Library.Word"
begin

unbundle bit_operations_syntax

section \<open>The data of trace\_http.c\<close>

type_synonym u8 = "8 word"
type_synonym u16 = "16 word"
type_synonym u32 = "32 word"
type_synonym u64 = "64 word"

definition TRACEPARENT_LEN :: nat where "TRACEPARENT_LEN = 55"
definition MAX_PATH_LEN :: nat where "MAX_PATH_LEN = 128"
definition MAX_METHOD_LEN :: nat where "MAX_METHOD_LEN = 16"

text \<open>\<^verbatim>\<open>struct http_event\<close>: the three \<^verbatim>\<open>char\<close> arrays are byte lists of 16, 128 and
  55 bytes. The field \<^verbatim>\<open>method\<close> is written \<open>method'\<close>.\<close>

record http_event =
  timestamp_ns :: u64
  pid :: u32
  tid :: u32
  method' :: "u8 list"
  path :: "u8 list"
  traceparent :: "u8 list"
  status_code :: u16
  duration_ns :: u64
  content_length :: u32

text \<open>\<^verbatim>\<open>struct trace_context\<close>: \<^verbatim>\<open>trace_id[16]\<close>, \<^verbatim>\<open>span_id[8]\<close>, \<^verbatim>\<open>flags\<close>.\<close>

record trace_context =
  trace_id :: "u8 list"
  span_id :: "u8 list"
  flags :: u8

text \<open>The initialiser \<^verbatim>\<open>= {}\<close> of both structs: every byte is zero.\<close>

definition http_event_zero :: http_event where
  "http_event_zero =
     \<lparr>timestamp_ns = 0, pid = 0, tid = 0,
      method' = replicate MAX_METHOD_LEN 0, path = replicate MAX_PATH_LEN 0,
      traceparent = replicate TRACEPARENT_LEN 0,
      status_code = 0, duration_ns = 0, content_length = 0\<rparr>"

definition trace_context_zero :: trace_context where
  "trace_context_zero = \<lparr>trace_id = replicate 16 0, span_id = replicate 8 0, flags = 0\<rparr>"

text \<open>The three maps of the program. The two hash maps are keyed by the 64-bit value of
  \<^verbatim>\<open>bpf_get_current_pid_tgid()\<close>; \<^verbatim>\<open>http_events\<close> is the perf event array, modelled as the
  list of records handed to \<^verbatim>\<open>bpf_perf_event_output\<close>, oldest first.\<close>

record bpf_state =
  active_requests :: "u64 \<rightharpoonup> http_event"
  trace_contexts :: "u64 \<rightharpoonup> trace_context"
  http_events :: "http_event list"

definition max_entries :: nat where "max_entries = 10240"

text \<open>What one probe hit sees: the current task id, the clock, the first three argument
  registers of the probed function, the bytes of user memory (\<open>None\<close> where an access
  faults) and the 32-bit values readable in kernel memory.\<close>

record probe_hit =
  cur_pid_tgid :: u64
  ktime :: u64
  PARM1 :: u64
  PARM2 :: u64
  PARM3 :: u64
  user_mem :: "u64 \<Rightarrow> u8 option"
  kernel_u32 :: "u64 \<Rightarrow> u32 option"

section \<open>The kernel helpers the program calls\<close>

text \<open>The helpers are the kernel's, not this repository's; they are modelled after their
  documented contract (bpf-helpers(7)).

  The string copies read the source byte by byte, up to \<open>n\<close> bytes, stopping after a NUL;
  \<open>rd i\<close> is the byte at offset \<open>i\<close> from the source pointer, \<open>None\<close> when it cannot be
  read.\<close>

fun str_scan :: "(nat \<Rightarrow> u8 option) \<Rightarrow> nat \<Rightarrow> nat \<Rightarrow> u8 list option" where
  "str_scan rd i 0 = Some []"
| "str_scan rd i (Suc n) =
     (case rd i of
        None \<Rightarrow> None
      | Some b \<Rightarrow>
          if b = 0 then Some [b]
          else (case str_scan rd (Suc i) n of
                  None \<Rightarrow> None
                | Some bs \<Rightarrow> Some (b # bs)))"

text \<open>The bytes read are stored at the start of the destination and the last of them is
  set to NUL; the destination beyond them keeps what it held.\<close>

definition str_store :: "u8 list \<Rightarrow> u8 list \<Rightarrow> u8 list" where
  "str_store dst bs =
     (if bs = [] then dst else butlast bs @ [0] @ drop (length bs) dst)"

text \<open>\<^verbatim>\<open>bpf_probe_read_user_str(dst, size, unsafe_ptr)\<close>: on a fault the destination is
  filled with zeros.\<close>

definition bpf_probe_read_user_str ::
  "u8 list \<Rightarrow> nat \<Rightarrow> (u64 \<Rightarrow> u8 option) \<Rightarrow> u64 \<Rightarrow> u8 list" where
  "bpf_probe_read_user_str dst sz mem ptr =
     (case str_scan (\<lambda>i. mem (ptr + of_nat i)) 0 sz of
        None \<Rightarrow> replicate sz 0
      | Some bs \<Rightarrow> str_store dst bs)"

text \<open>\<^verbatim>\<open>bpf_probe_read_kernel_str(dst, size, header + off)\<close>, where \<open>header\<close> points to the
  first byte of an object holding the bytes \<open>h\<close>. A read at an offset outside the object is
  an out-of-bounds access: what the kernel copies then is whatever lies next to the object,
  so the model stops there with \<open>OutOfBounds\<close>.\<close>

datatype fault = OutOfBounds

definition obj_rd :: "u8 list \<Rightarrow> nat \<Rightarrow> u8 option" where
  "obj_rd h i = (if i < length h then Some (h ! i) else None)"

definition bpf_probe_read_kernel_str ::
  "u8 list \<Rightarrow> nat \<Rightarrow> u8 list \<Rightarrow> nat \<Rightarrow> fault + u8 list" where
  "bpf_probe_read_kernel_str dst sz h off =
     (case str_scan (obj_rd h) off sz of
        None \<Rightarrow> Inl OutOfBounds
      | Some bs \<Rightarrow> Inr (str_store dst bs))"

text \<open>\<^verbatim>\<open>bpf_probe_read_kernel(&event->content_length, 4, ptr)\<close>: the 32-bit value at \<open>ptr\<close>,
  zero on a fault.\<close>

definition bpf_probe_read_kernel_u32 :: "(u64 \<Rightarrow> u32 option) \<Rightarrow> u64 \<Rightarrow> u32" where
  "bpf_probe_read_kernel_u32 kmem ptr = (case kmem ptr of None \<Rightarrow> 0 | Some v \<Rightarrow> v)"

text \<open>\<^verbatim>\<open>bpf_map_update_elem(map, key, value, BPF_ANY)\<close> on a hash map of \<open>cap\<close> entries:
  an existing key is overwritten, a new key is stored when there is room and refused
  (\<^verbatim>\<open>-E2BIG\<close>) when the map is full. The program discards the return code.\<close>

definition bpf_map_update_elem :: "nat \<Rightarrow> (u64 \<rightharpoonup> 'v) \<Rightarrow> u64 \<Rightarrow> 'v \<Rightarrow> (u64 \<rightharpoonup> 'v)" where
  "bpf_map_update_elem cap m k v =
     (if m k \<noteq> None \<or> card (dom m) < cap then m(k \<mapsto> v) else m)"

definition bpf_map_lookup_elem :: "(u64 \<rightharpoonup> 'v) \<Rightarrow> u64 \<Rightarrow> 'v option" where
  "bpf_map_lookup_elem m k = m k"

definition bpf_map_delete_elem :: "(u64 \<rightharpoonup> 'v) \<Rightarrow> u64 \<Rightarrow> (u64 \<rightharpoonup> 'v)" where
  "bpf_map_delete_elem m k = m(k := None)"

section \<open>The program\<close>

text \<open>\<^verbatim>\<open>parse_traceparent(header, ctx)\<close>. A null pointer is \<open>None\<close>; \<open>Some h\<close> is a pointer to
  an object holding the bytes \<open>h\<close>. The result is the return code and the struct behind
  \<open>ctx\<close>.\<close>

definition parse_traceparent ::
  "u8 list option \<Rightarrow> trace_context option \<Rightarrow> fault + (int \<times> trace_context option)" where
  "parse_traceparent header ctx =
     (case header of
        None \<Rightarrow> Inr (- 1, ctx)
      | Some h \<Rightarrow>
         (case ctx of
            None \<Rightarrow> Inr (- 1, ctx)
          | Some c \<Rightarrow>
             (case bpf_probe_read_kernel_str (trace_id c) 16 h 3 of
                Inl f \<Rightarrow> Inl f
              | Inr t \<Rightarrow>
                 (case bpf_probe_read_kernel_str (span_id c) 8 h 36 of
                    Inl f \<Rightarrow> Inl f
                  | Inr sp \<Rightarrow> Inr (0, Some (c\<lparr>trace_id := t, span_id := sp\<rparr>))))))"

text \<open>\<^verbatim>\<open>trace_http_request_start\<close>.\<close>

definition trace_http_request_start :: "probe_hit \<Rightarrow> bpf_state \<Rightarrow> fault + bpf_state" where
  "trace_http_request_start e s =
     (let id = cur_pid_tgid e;
          ts = ktime e;
          event = http_event_zero
                    \<lparr>timestamp_ns := ts,
                     pid := ucast (drop_bit 32 id),
                     tid := ucast (id AND 0xFFFFFFFF)\<rparr>;
          event = event\<lparr>method' :=
                    bpf_probe_read_user_str (method' event) MAX_METHOD_LEN (user_mem e) (PARM1 e)\<rparr>;
          event = event\<lparr>path :=
                    bpf_probe_read_user_str (path event) MAX_PATH_LEN (user_mem e) (PARM2 e)\<rparr>
      in if PARM3 e \<noteq> 0 then
           (let event = event\<lparr>traceparent :=
                          bpf_probe_read_user_str (traceparent event) TRACEPARENT_LEN
                            (user_mem e) (PARM3 e)\<rparr>
            in case parse_traceparent (Some (traceparent event)) (Some trace_context_zero) of
                 Inl f \<Rightarrow> Inl f
               | Inr (rc, trace_ctx) \<Rightarrow>
                   Inr (s\<lparr>trace_contexts :=
                            bpf_map_update_elem max_entries (trace_contexts s) id
                              (case trace_ctx of None \<Rightarrow> trace_context_zero | Some c \<Rightarrow> c),
                          active_requests :=
                            bpf_map_update_elem max_entries (active_requests s) id event\<rparr>))
         else
           Inr (s\<lparr>active_requests :=
                    bpf_map_update_elem max_entries (active_requests s) id event\<rparr>))"

text \<open>\<^verbatim>\<open>trace_http_request_end\<close>. The pointer returned by the lookup is into the map, so
  the three assignments change the stored entry before it is sent and deleted.\<close>

definition trace_http_request_end :: "probe_hit \<Rightarrow> bpf_state \<Rightarrow> bpf_state" where
  "trace_http_request_end e s =
     (let id = cur_pid_tgid e;
          ts = ktime e
      in case bpf_map_lookup_elem (active_requests s) id of
           None \<Rightarrow> s
         | Some event \<Rightarrow>
            (let event = event\<lparr>duration_ns := ts - timestamp_ns event\<rparr>;
                 event = event\<lparr>status_code := ucast (PARM1 e)\<rparr>;
                 event = (if PARM2 e \<noteq> 0
                          then event\<lparr>content_length :=
                                 bpf_probe_read_kernel_u32 (kernel_u32 e) (PARM2 e)\<rparr>
                          else event)
             in s\<lparr>http_events := http_events s @ [event],
                  active_requests :=
                    bpf_map_delete_elem ((active_requests s)(id \<mapsto> event)) id,
                  trace_contexts := bpf_map_delete_elem (trace_contexts s) id\<rparr>))"

text \<open>\<^verbatim>\<open>trace_function_entry\<close> and \<^verbatim>\<open>trace_function_exit\<close>: the generic pair, on the same
  \<^verbatim>\<open>active_requests\<close> map.\<close>

definition trace_function_entry :: "probe_hit \<Rightarrow> bpf_state \<Rightarrow> bpf_state" where
  "trace_function_entry e s =
     (let id = cur_pid_tgid e;
          ts = ktime e;
          event = http_event_zero
                    \<lparr>timestamp_ns := ts,
                     pid := ucast (drop_bit 32 id),
                     tid := ucast (id AND 0xFFFFFFFF)\<rparr>
      in s\<lparr>active_requests :=
             bpf_map_update_elem max_entries (active_requests s) id event\<rparr>)"

definition trace_function_exit :: "probe_hit \<Rightarrow> bpf_state \<Rightarrow> bpf_state" where
  "trace_function_exit e s =
     (let id = cur_pid_tgid e;
          ts = ktime e
      in case bpf_map_lookup_elem (active_requests s) id of
           None \<Rightarrow> s
         | Some event \<Rightarrow>
            (let event = event\<lparr>duration_ns := ts - timestamp_ns event\<rparr>
             in s\<lparr>http_events := http_events s @ [event],
                  active_requests :=
                    bpf_map_delete_elem ((active_requests s)(id \<mapsto> event)) id\<rparr>))"

text \<open>\<^verbatim>\<open>trace_tcp_sendmsg\<close> looks the trace context up and does nothing with it;
  \<^verbatim>\<open>trace_tcp_recvmsg\<close> touches no map.\<close>

definition trace_tcp_sendmsg :: "probe_hit \<Rightarrow> bpf_state \<Rightarrow> bpf_state" where
  "trace_tcp_sendmsg e s =
     (case bpf_map_lookup_elem (trace_contexts s) (cur_pid_tgid e) of
        None \<Rightarrow> s
      | Some trace_ctx \<Rightarrow> s)"

definition trace_tcp_recvmsg :: "probe_hit \<Rightarrow> bpf_state \<Rightarrow> bpf_state" where
  "trace_tcp_recvmsg e s = s"

text \<open>A run of the program is a sequence of probe hits, each entering one of the six
  handlers.\<close>

datatype probe =
  HttpHandlerStart | HttpHandlerEnd | FunctionEntry | FunctionExit | TcpSendmsg | TcpRecvmsg

fun step :: "probe \<times> probe_hit \<Rightarrow> bpf_state \<Rightarrow> fault + bpf_state" where
  "step (HttpHandlerStart, e) s = trace_http_request_start e s"
| "step (HttpHandlerEnd, e) s = Inr (trace_http_request_end e s)"
| "step (FunctionEntry, e) s = Inr (trace_function_entry e s)"
| "step (FunctionExit, e) s = Inr (trace_function_exit e s)"
| "step (TcpSendmsg, e) s = Inr (trace_tcp_sendmsg e s)"
| "step (TcpRecvmsg, e) s = Inr (trace_tcp_recvmsg e s)"

fun run :: "(probe \<times> probe_hit) list \<Rightarrow> bpf_state \<Rightarrow> fault + bpf_state" where
  "run [] s = Inr s"
| "run (c # cs) s = (case step c s of Inl f \<Rightarrow> Inl f | Inr s' \<Rightarrow> run cs s')"

section \<open>Notions used to state the properties\<close>

text \<open>The record \<^verbatim>\<open>trace_http_request_start\<close> builds on its stack before storing it, and
  what \<^verbatim>\<open>trace_http_request_end\<close> makes of a stored record before sending it.\<close>

definition start_event :: "probe_hit \<Rightarrow> http_event" where
  "start_event e =
     \<lparr>timestamp_ns = ktime e,
      pid = ucast (drop_bit 32 (cur_pid_tgid e)),
      tid = ucast (cur_pid_tgid e AND 0xFFFFFFFF),
      method' = bpf_probe_read_user_str (replicate 16 0) 16 (user_mem e) (PARM1 e),
      path = bpf_probe_read_user_str (replicate 128 0) 128 (user_mem e) (PARM2 e),
      traceparent =
        (if PARM3 e \<noteq> 0
         then bpf_probe_read_user_str (replicate 55 0) 55 (user_mem e) (PARM3 e)
         else replicate 55 0),
      status_code = 0, duration_ns = 0, content_length = 0\<rparr>"

definition end_event :: "probe_hit \<Rightarrow> http_event \<Rightarrow> http_event" where
  "end_event e ev =
     ev\<lparr>duration_ns := ktime e - timestamp_ns ev,
        status_code := ucast (PARM1 e),
        content_length :=
          (if PARM2 e \<noteq> 0 then bpf_probe_read_kernel_u32 (kernel_u32 e) (PARM2 e)
           else content_length ev)\<rparr>"

text \<open>User memory holds the NUL-terminated string \<open>s\<close> at address \<open>a\<close>.\<close>

fun cstr_at :: "(u64 \<Rightarrow> u8 option) \<Rightarrow> u64 \<Rightarrow> u8 list \<Rightarrow> bool" where
  "cstr_at mem a [] = (mem a = Some 0)"
| "cstr_at mem a (b # bs) = (b \<noteq> 0 \<and> mem a = Some b \<and> cstr_at mem (a + 1) bs)"

text \<open>A string in a buffer of \<open>n\<close> bytes: cut to \<open>n - 1\<close> bytes, then NUL up to the end.\<close>

definition c_field :: "nat \<Rightarrow> u8 list \<Rightarrow> u8 list" where
  "c_field n s = take (n - 1) s @ replicate (n - min (n - 1) (length s)) 0"

text \<open>The layout named in the comment of \<^verbatim>\<open>parse_traceparent\<close>,
  \<^verbatim>\<open>00-{trace-id}-{span-id}-{flags}\<close>: 2, 32, 16 and 2 hex digits separated by \<^verbatim>\<open>-\<close>.\<close>

definition is_hex :: "u8 \<Rightarrow> bool" where
  "is_hex b \<longleftrightarrow> (0x30 \<le> b \<and> b \<le> 0x39) \<or> (0x61 \<le> b \<and> b \<le> 0x66) \<or> (0x41 \<le> b \<and> b \<le> 0x46)"

definition traceparent_layout :: "u8 list \<Rightarrow> bool" where
  "traceparent_layout h \<longleftrightarrow>
     length h = 55 \<and>
     list_all is_hex (take 2 h) \<and> h ! 2 = 0x2D \<and>
     list_all is_hex (take 32 (drop 3 h)) \<and> h ! 35 = 0x2D \<and>
     list_all is_hex (take 16 (drop 36 h)) \<and> h ! 52 = 0x2D \<and>
     list_all is_hex (drop 53 h)"

text \<open>The decode operation as the specification words it, to compare
  \<^verbatim>\<open>parse_traceparent\<close> with: it checks the layout and the version, and returns the
  identifiers as the bytes their hex digits denote.\<close>

datatype decode_error = MalformedHeader | UnsupportedVersion

definition spec_hex_val :: "u8 \<Rightarrow> u8" where
  "spec_hex_val b =
     (if b \<le> 0x39 then b - 0x30 else if 0x61 \<le> b then b - 0x57 else b - 0x37)"

fun spec_hex_decode :: "u8 list \<Rightarrow> u8 list" where
  "spec_hex_decode (a # b # r) = (push_bit 4 (spec_hex_val a) OR spec_hex_val b) # spec_hex_decode r"
| "spec_hex_decode r = []"

definition spec_decode :: "u8 list \<Rightarrow> decode_error + trace_context" where
  "spec_decode h =
     (if \<not> traceparent_layout h then Inl MalformedHeader
      else if take 2 h \<noteq> [0x30, 0x30] then Inl UnsupportedVersion
      else Inr \<lparr>trace_id = spec_hex_decode (take 32 (drop 3 h)),
                span_id = spec_hex_decode (take 16 (drop 36 h)),
                flags = hd (spec_hex_decode (drop 53 h))\<rparr>)"

section \<open>Concrete runs\<close>

definition bytes_of :: "string \<Rightarrow> u8 list" where
  "bytes_of s = map of_char s"

text \<open>Memory holding the bytes \<open>bs\<close> from address \<open>base\<close> on, over \<open>mem\<close>.\<close>

definition region :: "u64 \<Rightarrow> u8 list \<Rightarrow> (u64 \<Rightarrow> u8 option) \<Rightarrow> (u64 \<Rightarrow> u8 option)" where
  "region base bs mem =
     (\<lambda>a. if unat (a - base) < length bs then Some (bs ! unat (a - base)) else mem a)"

definition ex_header :: "u8 list" where
  "ex_header = bytes_of ''00-4bf92f3577b34da6a3ce929d0e0e4736-00f067aa0ba902b7-01''"

definition ex_header_v1 :: "u8 list" where
  "ex_header_v1 = bytes_of ''01-4bf92f3577b34da6a3ce929d0e0e4736-00f067aa0ba902b7-01''"

definition ex_mem :: "u64 \<Rightarrow> u8 option" where
  "ex_mem =
     region 0x1000 (bytes_of ''GET'' @ [0])
       (region 0x2000 (bytes_of ''/v1/status'' @ [0])
          (region 0x3000 (ex_header @ [0])
             (region 0x5000 [0]
                (region 0x6000 (bytes_of ''00-4bf92f35-00f067aa-01'' @ [0]) (\<lambda>a. None)))))"

definition bpf_init :: bpf_state where
  "bpf_init = \<lparr>active_requests = Map.empty, trace_contexts = Map.empty, http_events = []\<rparr>"

text \<open>The example of the specification: a start at time 100 with method \<^verbatim>\<open>GET\<close>, path
  \<^verbatim>\<open>/v1/status\<close> and a well-formed header, an end at time 250 with status 200 and content
  length 512.\<close>

definition ex_start :: probe_hit where
  "ex_start =
     \<lparr>cur_pid_tgid = 0x1000000A, ktime = 100, PARM1 = 0x1000, PARM2 = 0x2000, PARM3 = 0x3000,
      user_mem = ex_mem, kernel_u32 = (\<lambda>a. None)\<rparr>"

definition ex_end :: probe_hit where
  "ex_end =
     \<lparr>cur_pid_tgid = 0x1000000A, ktime = 250, PARM1 = 200, PARM2 = 0x4000, PARM3 = 0,
      user_mem = ex_mem, kernel_u32 = (\<lambda>a. if a = 0x4000 then Some 512 else None)\<rparr>"

text \<open>A start of the same task with a null header pointer, one with an empty header, one
  with a header cut short, and a hit of another task.\<close>

definition ex_start_null :: probe_hit where
  "ex_start_null =
     \<lparr>cur_pid_tgid = 0x1000000A, ktime = 180, PARM1 = 0x1000, PARM2 = 0x2000, PARM3 = 0,
      user_mem = ex_mem, kernel_u32 = (\<lambda>a. None)\<rparr>"

definition ex_start_empty :: probe_hit where
  "ex_start_empty =
     \<lparr>cur_pid_tgid = 0x1000000A, ktime = 100, PARM1 = 0x1000, PARM2 = 0x2000, PARM3 = 0x5000,
      user_mem = ex_mem, kernel_u32 = (\<lambda>a. None)\<rparr>"

definition ex_start_short :: probe_hit where
  "ex_start_short =
     \<lparr>cur_pid_tgid = 0x1000000A, ktime = 100, PARM1 = 0x1000, PARM2 = 0x2000, PARM3 = 0x6000,
      user_mem = ex_mem, kernel_u32 = (\<lambda>a. None)\<rparr>"

definition ex_other :: probe_hit where
  "ex_other =
     \<lparr>cur_pid_tgid = 0x2000000B, ktime = 120, PARM1 = 0x1000, PARM2 = 0x2000, PARM3 = 0,
      user_mem = ex_mem, kernel_u32 = (\<lambda>a. None)\<rparr>"

text \<open>A state whose \<^verbatim>\<open>active_requests\<close> map is full: the 10240 keys below 10240.\<close>

definition full_table :: "u64 \<rightharpoonup> http_event" where
  "full_table = (\<lambda>k. if k < 10240 then Some http_event_zero else None)"

definition full_state :: bpf_state where
  "full_state = \<lparr>active_requests = full_table, trace_contexts = Map.empty, http_events = []\<rparr>"

text \<open>What \<^verbatim>\<open>parse_traceparent\<close> makes of the example header, and a header of 55 bytes
  that has none of the layout.\<close>

definition ex_context :: trace_context where
  "ex_context =
     \<lparr>trace_id = bytes_of ''4bf92f3577b34da'' @ [0],
      span_id = bytes_of ''00f067a'' @ [0],
      flags = 0\<rparr>"

definition ex_garbage :: "u8 list" where
  "ex_garbage = replicate 55 0x7A"

section \<open>The helpers and the handlers, step by step\<close>

lemma str_scan_length: "str_scan rd i n = Some bs \<Longrightarrow> length bs \<le> n"
  by (induction n arbitrary: i bs) (auto split: option.splits if_splits)

lemma str_scan_obj_in_bounds:
  "off + n \<le> length h \<Longrightarrow> \<exists>bs. str_scan (obj_rd h) off n = Some bs"
proof (induction n arbitrary: off)
  case 0
  then show ?case by simp
next
  case (Suc n)
  from Suc.prems have "Suc off + n \<le> length h" by simp
  from Suc.IH [OF this] obtain bs where "str_scan (obj_rd h) (Suc off) n = Some bs" ..
  moreover from Suc.prems have "obj_rd h off = Some (h ! off)" by (simp add: obj_rd_def)
  ultimately show ?case by simp
qed

lemma kernel_str_in_bounds:
  "off + n \<le> length h \<Longrightarrow> \<exists>bs. bpf_probe_read_kernel_str dst n h off = Inr bs"
  using str_scan_obj_in_bounds [of off n h]
  by (auto simp: bpf_probe_read_kernel_str_def)

lemma parse_traceparent_in_bounds:
  assumes "44 \<le> length h"
  shows "\<exists>c'. parse_traceparent (Some h) (Some c) = Inr (0, Some c')"
proof -
  obtain t where t: "bpf_probe_read_kernel_str (trace_id c) 16 h 3 = Inr t"
    using kernel_str_in_bounds [of 3 16 h] assms by auto
  obtain sp where sp: "bpf_probe_read_kernel_str (span_id c) 8 h 36 = Inr sp"
    using kernel_str_in_bounds [of 36 8 h] assms by auto
  show ?thesis by (simp add: parse_traceparent_def t sp)
qed

lemma length_str_store:
  "length bs \<le> length dst \<Longrightarrow> length (str_store dst bs) = length dst"
  by (cases bs rule: rev_cases) (auto simp: str_store_def)

lemma length_user_str:
  "length dst = n \<Longrightarrow> length (bpf_probe_read_user_str dst n mem p) = n"
  by (auto simp: bpf_probe_read_user_str_def length_str_store dest: str_scan_length
      split: option.splits)

lemma length_traceparent_start_event: "length (traceparent (start_event e)) = 55"
  by (simp add: start_event_def length_user_str)

lemma start_total_aux:
  "\<exists>c'. parse_traceparent (Some (traceparent (start_event e))) (Some trace_context_zero) = Inr (0, Some c')"
  by (rule parse_traceparent_in_bounds) (simp add: length_traceparent_start_event)

lemma trace_http_request_start_eq:
  "trace_http_request_start e s =
     (if PARM3 e \<noteq> 0 then
        (case parse_traceparent (Some (traceparent (start_event e))) (Some trace_context_zero) of
           Inl f \<Rightarrow> Inl f
         | Inr (rc, trace_ctx) \<Rightarrow>
             Inr (s\<lparr>trace_contexts :=
                      bpf_map_update_elem max_entries (trace_contexts s) (cur_pid_tgid e)
                        (case trace_ctx of None \<Rightarrow> trace_context_zero | Some c \<Rightarrow> c),
                    active_requests :=
                      bpf_map_update_elem max_entries (active_requests s) (cur_pid_tgid e)
                        (start_event e)\<rparr>))
      else Inr (s\<lparr>active_requests :=
                    bpf_map_update_elem max_entries (active_requests s) (cur_pid_tgid e)
                      (start_event e)\<rparr>))"
  by (cases "PARM3 e = 0")
    (simp_all add: trace_http_request_start_def start_event_def http_event_zero_def Let_def
      MAX_METHOD_LEN_def MAX_PATH_LEN_def TRACEPARENT_LEN_def split: sum.split prod.split)

lemma str_scan_cstr:
  "cstr_at mem (p + of_nat i) s \<Longrightarrow>
   str_scan (\<lambda>j. mem (p + of_nat j)) i n = Some (if length s < n then s @ [0] else take n s)"
proof (induction n arbitrary: i s)
  case 0
  then show ?case by simp
next
  case (Suc n)
  show ?case
  proof (cases s)
    case Nil
    with Suc.prems show ?thesis by simp
  next
    case (Cons b bs)
    with Suc.prems have b: "b \<noteq> 0" "mem (p + of_nat i) = Some b"
      and rest: "cstr_at mem (p + of_nat (Suc i)) bs"
      by (simp_all add: ac_simps)
    from Suc.IH [OF rest] b Cons show ?thesis by simp
  qed
qed

lemma user_str_cstr:
  assumes "cstr_at mem p s" and "0 < n"
  shows "bpf_probe_read_user_str (replicate n 0) n mem p = c_field n s"
proof -
  from assms(1) have "cstr_at mem (p + of_nat 0) s" by simp
  from str_scan_cstr [OF this, of n]
  have scan: "str_scan (\<lambda>j. mem (p + of_nat j)) 0 n = Some (if length s < n then s @ [0] else take n s)" .
  show ?thesis
  proof (cases "length s < n")
    case True
    then have "min (n - 1) (length s) = length s" by simp
    moreover from True have "replicate (n - length s) (0::u8) = 0 # replicate (n - Suc (length s)) 0"
      by (metis Suc_diff_Suc replicate_Suc)
    ultimately show ?thesis using True scan
      by (simp add: bpf_probe_read_user_str_def str_store_def c_field_def)
  next
    case False
    with assms(2) have "min (n - 1) (length s) = n - 1" "take n s \<noteq> []"
      by auto
    with False scan assms(2) show ?thesis
      by (simp add: bpf_probe_read_user_str_def str_store_def c_field_def butlast_take)
  qed
qed

lemma unat_image_lessThan: "unat ` {..< (n :: u64)} = {..< unat n}"
proof
  show "unat ` {..<n} \<subseteq> {..<unat n}"
    by (auto simp: word_less_nat_alt)
  show "{..<unat n} \<subseteq> unat ` {..<n}"
  proof
    fix m assume "m \<in> {..<unat n}"
    then have m: "m < unat n" by simp
    moreover have "unat n < 2 ^ 64" using unsigned_less [of n, where ?'a = nat] by simp
    ultimately have u: "unat (of_nat m :: u64) = m" by (simp add: unat_of_nat)
    with m have "(of_nat m :: u64) < n" by (simp add: word_less_nat_alt)
    with u show "m \<in> unat ` {..<n}"
      by (metis imageI lessThan_iff)
  qed
qed

lemma card_word_lessThan: "card {..< (n :: u64)} = unat n"
proof -
  have "inj_on unat {..<n}"
    by (simp add: inj_onI word_unat_eq_iff)
  then have "card (unat ` {..<n}) = card {..<n}" by (rule card_image)
  then show ?thesis by (simp add: unat_image_lessThan)
qed

lemma card_full_table: "card (dom full_table) = max_entries"
proof -
  have "dom full_table = {..<10240}"
    by (auto simp: full_table_def dom_def)
  then show ?thesis by (simp add: card_word_lessThan max_entries_def)
qed

lemma start_Inr: "\<exists>s'. trace_http_request_start e s = Inr s'"
  using start_total_aux [of e]
  by (auto simp: trace_http_request_start_eq)

lemma start_active:
  "trace_http_request_start e s = Inr s' \<Longrightarrow>
   active_requests s' =
     bpf_map_update_elem max_entries (active_requests s) (cur_pid_tgid e) (start_event e)"
  by (auto simp: trace_http_request_start_eq split: if_splits sum.splits)

lemma start_events:
  "trace_http_request_start e s = Inr s' \<Longrightarrow> http_events s' = http_events s"
  by (auto simp: trace_http_request_start_eq split: if_splits sum.splits)

lemma start_contexts_null:
  "trace_http_request_start e s = Inr s' \<Longrightarrow> PARM3 e = 0 \<Longrightarrow>
   trace_contexts s' = trace_contexts s"
  by (auto simp: trace_http_request_start_eq split: if_splits sum.splits)

lemma start_contexts:
  "trace_http_request_start e s = Inr s' \<Longrightarrow> PARM3 e \<noteq> 0 \<Longrightarrow>
   parse_traceparent (Some (traceparent (start_event e))) (Some trace_context_zero) = Inr (rc, Some c) \<Longrightarrow>
   trace_contexts s' = bpf_map_update_elem max_entries (trace_contexts s) (cur_pid_tgid e) c"
  by (auto simp: trace_http_request_start_eq split: if_splits sum.splits)

lemma update_other: "k \<noteq> t \<Longrightarrow> bpf_map_update_elem cap m k v t = m t"
  by (simp add: bpf_map_update_elem_def)

lemma update_room:
  "m k \<noteq> None \<or> card (dom m) < cap \<Longrightarrow> bpf_map_update_elem cap m k v = m(k \<mapsto> v)"
  by (simp add: bpf_map_update_elem_def)

lemma update_full:
  "m k = None \<Longrightarrow> cap \<le> card (dom m) \<Longrightarrow> bpf_map_update_elem cap m k v = m"
  by (simp add: bpf_map_update_elem_def)

lemma end_orphan:
  "active_requests s (cur_pid_tgid e) = None \<Longrightarrow> trace_http_request_end e s = s"
  by (simp add: trace_http_request_end_def bpf_map_lookup_elem_def)

lemma end_matched:
  "active_requests s (cur_pid_tgid e) = Some ev \<Longrightarrow>
   trace_http_request_end e s =
     s\<lparr>http_events := http_events s @ [end_event e ev],
       active_requests := (active_requests s)(cur_pid_tgid e := None),
       trace_contexts := (trace_contexts s)(cur_pid_tgid e := None)\<rparr>"
  by (simp add: trace_http_request_end_def bpf_map_lookup_elem_def bpf_map_delete_elem_def
      end_event_def Let_def)

lemma exit_orphan:
  "active_requests s (cur_pid_tgid e) = None \<Longrightarrow> trace_function_exit e s = s"
  by (simp add: trace_function_exit_def bpf_map_lookup_elem_def)

lemma exit_matched:
  "active_requests s (cur_pid_tgid e) = Some ev \<Longrightarrow>
   trace_function_exit e s =
     s\<lparr>http_events := http_events s @ [ev\<lparr>duration_ns := ktime e - timestamp_ns ev\<rparr>],
       active_requests := (active_requests s)(cur_pid_tgid e := None)\<rparr>"
  by (simp add: trace_function_exit_def bpf_map_lookup_elem_def bpf_map_delete_elem_def Let_def)

lemma step_Inr: "\<exists>s'. step c s = Inr s'"
  by (cases c, rename_tac p e, case_tac p) (simp_all add: start_Inr)

lemma run_Inr: "\<exists>s'. run cs s = Inr s'"
proof (induction cs arbitrary: s)
  case Nil
  then show ?case by simp
next
  case (Cons c cs)
  obtain s1 where "step c s = Inr s1" using step_Inr by blast
  with Cons.IH [of s1] show ?case by simp
qed

lemma step_frame_active:
  assumes "step (p, e) s = Inr s'" and "cur_pid_tgid e \<noteq> t"
  shows "active_requests s' t = active_requests s t"
proof (cases p)
  case HttpHandlerStart
  with assms show ?thesis by (auto dest!: start_active simp: update_other)
next
  case HttpHandlerEnd
  with assms show ?thesis
    by (cases "active_requests s (cur_pid_tgid e)") (auto simp: end_orphan end_matched)
next
  case FunctionEntry
  with assms show ?thesis by (auto simp: trace_function_entry_def Let_def update_other)
next
  case FunctionExit
  with assms show ?thesis
    by (cases "active_requests s (cur_pid_tgid e)") (auto simp: exit_orphan exit_matched)
next
  case TcpSendmsg
  with assms show ?thesis by (auto simp: trace_tcp_sendmsg_def split: option.splits)
next
  case TcpRecvmsg
  with assms show ?thesis by (auto simp: trace_tcp_recvmsg_def)
qed

lemma run_frame_active:
  "run cs s = Inr s' \<Longrightarrow> \<forall>c \<in> set cs. cur_pid_tgid (snd c) \<noteq> t \<Longrightarrow>
   active_requests s' t = active_requests s t"
proof (induction cs arbitrary: s)
  case Nil
  then show ?case by simp
next
  case (Cons c cs)
  obtain p e where c: "c = (p, e)" by (cases c)
  obtain s1 where s1: "step c s = Inr s1" using step_Inr by blast
  with Cons.prems have "run cs s1 = Inr s'" by simp
  moreover from Cons.prems have "\<forall>c \<in> set cs. cur_pid_tgid (snd c) \<noteq> t" by simp
  ultimately have "active_requests s' t = active_requests s1 t" by (rule Cons.IH)
  moreover from Cons.prems c have "cur_pid_tgid e \<noteq> t" by simp
  with s1 c have "active_requests s1 t = active_requests s t"
    by (auto intro: step_frame_active)
  ultimately show ?case by simp
qed

lemma ex_method: "cstr_at ex_mem 0x1000 (bytes_of ''GET'')"
  by (simp add: ex_mem_def region_def bytes_of_def)

lemma ex_path: "cstr_at ex_mem 0x2000 (bytes_of ''/v1/status'')"
  by (simp add: ex_mem_def region_def bytes_of_def)

lemma ex_hdr: "cstr_at ex_mem 0x3000 ex_header"
  by (simp add: ex_mem_def region_def bytes_of_def ex_header_def)

lemma ex_empty: "cstr_at ex_mem 0x5000 []"
  by (simp add: ex_mem_def region_def bytes_of_def ex_header_def)

lemma ex_short: "cstr_at ex_mem 0x6000 (bytes_of ''00-4bf92f35-00f067aa-01'')"
  by (simp add: ex_mem_def region_def bytes_of_def ex_header_def)

lemma ex_layout: "traceparent_layout ex_header"
  by (simp add: traceparent_layout_def ex_header_def bytes_of_def is_hex_def)

lemma ex_field: "c_field 55 ex_header = bytes_of ''00-4bf92f3577b34da6a3ce929d0e0e4736-00f067aa0ba902b7-0'' @ [0]"
  by (simp add: c_field_def ex_header_def bytes_of_def)

lemma pending_after_start:
  assumes "trace_http_request_start e s = Inr s'"
    and "active_requests s (cur_pid_tgid e) \<noteq> None \<or> card (dom (active_requests s)) < max_entries"
  shows "active_requests s' (cur_pid_tgid e) = Some (start_event e)"
  using start_active [OF assms(1)] assms(2) by (simp add: update_room)

lemma start_then_end:
  assumes s1: "trace_http_request_start e1 s0 = Inr s1"
    and pend: "active_requests s1 t = Some ev"
    and run: "run cs s1 = Inr s2"
    and oth: "\<forall>c \<in> set cs. cur_pid_tgid (snd c) \<noteq> t"
    and t: "cur_pid_tgid e2 = t"
  shows "http_events (trace_http_request_end e2 s2) = http_events s2 @ [end_event e2 ev]"
proof -
  from run_frame_active [OF run oth] pend t
  have "active_requests s2 (cur_pid_tgid e2) = Some ev" by simp
  then show ?thesis by (simp add: end_matched)
qed

lemma ex_other_task: "\<forall>c \<in> set [(FunctionEntry, ex_other)]. cur_pid_tgid (snd c) \<noteq> 0x1000000A"
  by (simp add: ex_other_def)

lemma str_scan_nonzero:
  "off + n \<le> length b \<Longrightarrow> (\<forall>i. off \<le> i \<and> i < off + n \<longrightarrow> b ! i \<noteq> 0) \<Longrightarrow>
   str_scan (obj_rd b) off n = Some (take n (drop off b))"
proof (induction n arbitrary: off)
  case 0
  then show ?case by simp
next
  case (Suc n)
  from Suc.prems have lt: "off < length b" and nz: "b ! off \<noteq> 0" by auto
  from Suc.prems have "Suc off + n \<le> length b"
    and "\<forall>i. Suc off \<le> i \<and> i < Suc off + n \<longrightarrow> b ! i \<noteq> 0" by auto
  then have "str_scan (obj_rd b) (Suc off) n = Some (take n (drop (Suc off) b))"
    by (rule Suc.IH)
  moreover have "obj_rd b off = Some (b ! off)" using lt by (simp add: obj_rd_def)
  moreover have "take (Suc n) (drop off b) = b ! off # take n (drop (Suc off) b)"
    using lt by (simp add: Cons_nth_drop_Suc [symmetric])
  ultimately show ?case using nz by simp
qed

lemma kernel_str_nonzero:
  assumes "0 < n" "off + n \<le> length b" "\<forall>i. off \<le> i \<and> i < off + n \<longrightarrow> b ! i \<noteq> 0"
    and "length dst = n"
  shows "bpf_probe_read_kernel_str dst n b off = Inr (take (n - 1) (drop off b) @ [0])"
proof -
  have "str_scan (obj_rd b) off n = Some (take n (drop off b))"
    using assms(2,3) by (rule str_scan_nonzero)
  moreover have "length (take n (drop off b)) = n" using assms(2) by simp
  moreover have "take n (drop off b) \<noteq> []" using assms(1,2) by auto
  moreover have "butlast (take n (drop off b)) = take (n - 1) (drop off b)"
    using assms(2) by (simp add: butlast_take)
  ultimately show ?thesis
    using assms(4) by (simp add: bpf_probe_read_kernel_str_def str_store_def)
qed

lemma parse_traceparent_copies:
  assumes "44 \<le> length b"
    and "\<forall>i. 3 \<le> i \<and> i < 19 \<longrightarrow> b ! i \<noteq> 0"
    and "\<forall>i. 36 \<le> i \<and> i < 44 \<longrightarrow> b ! i \<noteq> 0"
  shows "parse_traceparent (Some b) (Some trace_context_zero) =
           Inr (0, Some \<lparr>trace_id = take 15 (drop 3 b) @ [0],
                         span_id = take 7 (drop 36 b) @ [0], flags = 0\<rparr>)"
proof -
  have t: "bpf_probe_read_kernel_str (replicate 16 0) 16 b 3 = Inr (take 15 (drop 3 b) @ [0])"
    using kernel_str_nonzero [of 16 3 b "replicate 16 0"] assms(1,2) by simp
  have sp: "bpf_probe_read_kernel_str (replicate 8 0) 8 b 36 = Inr (take 7 (drop 36 b) @ [0])"
    using kernel_str_nonzero [of 8 36 b "replicate 8 0"] assms(1,3) by simp
  show ?thesis
    by (simp add: parse_traceparent_def trace_context_zero_def t sp)
qed

lemma str_scan_nul: "obj_rd b off = Some 0 \<Longrightarrow> 0 < n \<Longrightarrow> str_scan (obj_rd b) off n = Some [0]"
  by (cases n) simp_all

lemma str_scan_outside: "length b \<le> off \<Longrightarrow> 0 < n \<Longrightarrow> str_scan (obj_rd b) off n = None"
  by (cases n) (simp_all add: obj_rd_def)

lemma parse_traceparent_nul:
  assumes "36 < length b" "b ! 3 = 0" "b ! 36 = 0"
  shows "parse_traceparent (Some b) (Some trace_context_zero) = Inr (0, Some trace_context_zero)"
proof -
  have "obj_rd b 3 = Some 0" "obj_rd b 36 = Some 0"
    using assms by (simp_all add: obj_rd_def)
  then have "str_scan (obj_rd b) 3 16 = Some [0]" "str_scan (obj_rd b) 36 8 = Some [0]"
    by (simp_all add: str_scan_nul)
  moreover have "(0::u8) # replicate 15 0 = replicate 16 0" "(0::u8) # replicate 7 0 = replicate 8 0"
    by (simp_all add: numeral_eq_Suc)
  ultimately show ?thesis
    by (simp add: parse_traceparent_def trace_context_zero_def bpf_probe_read_kernel_str_def
        str_store_def)
qed

lemma is_hex_nonzero: "is_hex b \<Longrightarrow> b \<noteq> 0"
  by (auto simp: is_hex_def)

lemma layout_nonzero:
  assumes "traceparent_layout h" "3 \<le> i" "i < 52" "i \<noteq> 35"
  shows "h ! i \<noteq> 0"
proof (cases "i < 35")
  case True
  from assms(1) have "list_all is_hex (take 32 (drop 3 h))" and len: "length h = 55"
    by (simp_all add: traceparent_layout_def)
  then have "\<forall>j < 32. is_hex (take 32 (drop 3 h) ! j)"
    by (simp add: list_all_length)
  moreover from True assms(2) have "i - 3 < 32" by simp
  ultimately have "is_hex (take 32 (drop 3 h) ! (i - 3))" by blast
  with True assms(2) len have "is_hex (h ! i)" by simp
  then show ?thesis by (rule is_hex_nonzero)
next
  case False
  with assms have i: "36 \<le> i" by simp
  from assms(1) have "list_all is_hex (take 16 (drop 36 h))" and len: "length h = 55"
    by (simp_all add: traceparent_layout_def)
  then have "\<forall>j < 16. is_hex (take 16 (drop 36 h) ! j)"
    by (simp add: list_all_length)
  moreover from i assms(3) have "i - 36 < 16" by simp
  ultimately have "is_hex (take 16 (drop 36 h) ! (i - 36))" by blast
  with i assms(3) len have "is_hex (h ! i)" by simp
  then show ?thesis by (rule is_hex_nonzero)
qed

lemma c_field_full: "length h = 55 \<Longrightarrow> c_field 55 h = take 54 h @ [0]"
  by (simp add: c_field_def)

lemma ex_parse: "parse_traceparent (Some ex_header) (Some trace_context_zero) = Inr (0, Some ex_context)"
proof -
  have "parse_traceparent (Some ex_header) (Some trace_context_zero) =
           Inr (0, Some \<lparr>trace_id = take 15 (drop 3 ex_header) @ [0],
                         span_id = take 7 (drop 36 ex_header) @ [0], flags = 0\<rparr>)"
  proof (rule parse_traceparent_copies)
    show "44 \<le> length ex_header" by (simp add: ex_header_def bytes_of_def)
    show "\<forall>i. 3 \<le> i \<and> i < 19 \<longrightarrow> ex_header ! i \<noteq> 0"
      using layout_nonzero [OF ex_layout] by simp
    show "\<forall>i. 36 \<le> i \<and> i < 44 \<longrightarrow> ex_header ! i \<noteq> 0"
      using layout_nonzero [OF ex_layout] by simp
  qed
  then show ?thesis by (simp add: ex_context_def ex_header_def bytes_of_def)
qed

lemma parse_layout_copies:
  assumes "traceparent_layout h"
  shows "parse_traceparent (Some h) (Some trace_context_zero) =
           Inr (0, Some \<lparr>trace_id = take 15 (drop 3 h) @ [0],
                         span_id = take 7 (drop 36 h) @ [0], flags = 0\<rparr>) \<and>
         parse_traceparent (Some (c_field 55 h)) (Some trace_context_zero) =
           Inr (0, Some \<lparr>trace_id = take 15 (drop 3 h) @ [0],
                         span_id = take 7 (drop 36 h) @ [0], flags = 0\<rparr>)"
proof
  from assms have len: "length h = 55" by (simp add: traceparent_layout_def)
  have nz1: "\<forall>i. 3 \<le> i \<and> i < 19 \<longrightarrow> h ! i \<noteq> 0"
    using layout_nonzero [OF assms] by simp
  have nz2: "\<forall>i. 36 \<le> i \<and> i < 44 \<longrightarrow> h ! i \<noteq> 0"
    using layout_nonzero [OF assms] by simp
  show "parse_traceparent (Some h) (Some trace_context_zero) =
           Inr (0, Some \<lparr>trace_id = take 15 (drop 3 h) @ [0],
                         span_id = take 7 (drop 36 h) @ [0], flags = 0\<rparr>)"
    using len nz1 nz2 by (intro parse_traceparent_copies) simp_all
  let ?b = "c_field 55 h"
  have b: "?b = take 54 h @ [0]" using len by (rule c_field_full)
  have same: "\<And>i. i < 54 \<Longrightarrow> ?b ! i = h ! i"
    using len by (simp add: b nth_append)
  have "parse_traceparent (Some ?b) (Some trace_context_zero) =
           Inr (0, Some \<lparr>trace_id = take 15 (drop 3 ?b) @ [0],
                         span_id = take 7 (drop 36 ?b) @ [0], flags = 0\<rparr>)"
  proof (rule parse_traceparent_copies)
    show "44 \<le> length ?b" using len by (simp add: b)
    show "\<forall>i. 3 \<le> i \<and> i < 19 \<longrightarrow> ?b ! i \<noteq> 0" using nz1 same by simp
    show "\<forall>i. 36 \<le> i \<and> i < 44 \<longrightarrow> ?b ! i \<noteq> 0" using nz2 same by simp
  qed
  moreover have "take 15 (drop 3 ?b) = take 15 (drop 3 h)" "take 7 (drop 36 ?b) = take 7 (drop 36 h)"
    using len by (simp_all add: b drop_take)
  ultimately show "parse_traceparent (Some ?b) (Some trace_context_zero) =
           Inr (0, Some \<lparr>trace_id = take 15 (drop 3 h) @ [0],
                         span_id = take 7 (drop 36 h) @ [0], flags = 0\<rparr>)"
    by simp
qed

lemma start_stored:
  assumes "trace_http_request_start e s = Inr s'"
    and "active_requests s' (cur_pid_tgid e) \<noteq> None"
  shows "active_requests s' (cur_pid_tgid e) = Some (start_event e)"
  using start_active [OF assms(1)] assms(2)
  by (auto simp: bpf_map_update_elem_def split: if_splits)

lemma ex_start_field: "traceparent (start_event ex_start) = c_field 55 ex_header"
  using user_str_cstr [OF ex_hdr, of 55] by (simp add: start_event_def ex_start_def)

lemma ex_start_state:
  "trace_http_request_start ex_start bpf_init =
     Inr \<lparr>active_requests = [0x1000000A \<mapsto> start_event ex_start],
          trace_contexts = [0x1000000A \<mapsto> ex_context],
          http_events = []\<rparr>"
proof -
  from parse_layout_copies [OF ex_layout]
  have "parse_traceparent (Some (c_field 55 ex_header)) (Some trace_context_zero) =
      Inr (0, Some \<lparr>trace_id = take 15 (drop 3 ex_header) @ [0],
                    span_id = take 7 (drop 36 ex_header) @ [0], flags = 0\<rparr>)"
    by blast
  then have "parse_traceparent (Some (traceparent (start_event ex_start))) (Some trace_context_zero) =
      Inr (0, Some ex_context)"
    by (simp add: ex_start_field ex_context_def) (simp add: ex_header_def bytes_of_def)
  moreover have "PARM3 ex_start \<noteq> 0" "cur_pid_tgid ex_start = 0x1000000A"
    by (simp_all add: ex_start_def)
  ultimately show ?thesis
    by (simp add: trace_http_request_start_eq bpf_init_def bpf_map_update_elem_def max_entries_def)
qed

lemma ex_empty_field: "traceparent (start_event ex_start_empty) = replicate 55 0"
  using user_str_cstr [OF ex_empty, of 55]
  by (simp add: start_event_def ex_start_empty_def c_field_def)

lemma ex_empty_state:
  "trace_http_request_start ex_start_empty bpf_init =
     Inr \<lparr>active_requests = [0x1000000A \<mapsto> start_event ex_start_empty],
          trace_contexts = [0x1000000A \<mapsto> trace_context_zero],
          http_events = []\<rparr>"
proof -
  have "parse_traceparent (Some (replicate 55 0)) (Some trace_context_zero) =
      Inr (0, Some trace_context_zero)"
    by (rule parse_traceparent_nul) simp_all
  moreover have "PARM3 ex_start_empty \<noteq> 0" "cur_pid_tgid ex_start_empty = 0x1000000A"
    by (simp_all add: ex_start_empty_def)
  ultimately show ?thesis
    by (simp add: trace_http_request_start_eq ex_empty_field bpf_init_def
        bpf_map_update_elem_def max_entries_def)
qed

section \<open>Start followed by end\<close>

text \<open>C1, as the program has it. When the \<^verbatim>\<open>active_requests\<close> map has room for the task (it
  holds an entry for it already, or fewer than 10240 entries), a start followed by an end
  of the same task, with hits of other tasks only in between, sends exactly one record,
  whatever method, path and header the start was given: the start sends none and the end
  appends one. The record is the one built at the start, with the duration (the end time
  minus the start time), the status code and the content length written at the end; its
  time stamp, pid and tid are those of the start. Method and path are the strings of the
  start, cut to 15 and 127 bytes and NUL-padded in their buffers of 16 and 128 bytes; a
  header shorter than 55 bytes is kept whole, NUL-padded in its buffer of 55 bytes, and a
  null header pointer gives an all-NUL header.\<close>

theorem start_end_emits_one:
  assumes t: "cur_pid_tgid e1 = t" "cur_pid_tgid e2 = t"
    and room: "active_requests s0 t \<noteq> None \<or> card (dom (active_requests s0)) < max_entries"
    and oth: "\<forall>c \<in> set cs. cur_pid_tgid (snd c) \<noteq> t"
  shows "(\<exists>s1 s2.
            trace_http_request_start e1 s0 = Inr s1 \<and> http_events s1 = http_events s0 \<and>
            run cs s1 = Inr s2 \<and>
            http_events (trace_http_request_end e2 s2) =
              http_events s2 @
                [\<lparr>timestamp_ns = ktime e1,
                  pid = ucast (drop_bit 32 t),
                  tid = ucast (t AND 0xFFFFFFFF),
                  method' = bpf_probe_read_user_str (replicate 16 0) 16 (user_mem e1) (PARM1 e1),
                  path = bpf_probe_read_user_str (replicate 128 0) 128 (user_mem e1) (PARM2 e1),
                  traceparent =
                    (if PARM3 e1 \<noteq> 0
                     then bpf_probe_read_user_str (replicate 55 0) 55 (user_mem e1) (PARM3 e1)
                     else replicate 55 0),
                  status_code = ucast (PARM1 e2),
                  duration_ns = ktime e2 - ktime e1,
                  content_length =
                    (if PARM2 e2 \<noteq> 0
                     then bpf_probe_read_kernel_u32 (kernel_u32 e2) (PARM2 e2) else 0)\<rparr>]) \<and>
         (\<forall>m. cstr_at (user_mem e1) (PARM1 e1) m \<longrightarrow>
              bpf_probe_read_user_str (replicate 16 0) 16 (user_mem e1) (PARM1 e1) =
                c_field 16 m) \<and>
         (\<forall>p. cstr_at (user_mem e1) (PARM2 e1) p \<longrightarrow>
              bpf_probe_read_user_str (replicate 128 0) 128 (user_mem e1) (PARM2 e1) =
                c_field 128 p) \<and>
         (\<forall>h. cstr_at (user_mem e1) (PARM3 e1) h \<and> length h < 55 \<longrightarrow>
              bpf_probe_read_user_str (replicate 55 0) 55 (user_mem e1) (PARM3 e1) =
                h @ replicate (55 - length h) 0)"
proof (intro conjI allI impI)
  obtain s1 where s1: "trace_http_request_start e1 s0 = Inr s1"
    using start_Inr by blast
  obtain s2 where s2: "run cs s1 = Inr s2"
    using run_Inr by blast
  from room t have "active_requests s0 (cur_pid_tgid e1) \<noteq> None \<or>
      card (dom (active_requests s0)) < max_entries" by simp
  from pending_after_start [OF s1 this] t
  have pend: "active_requests s1 t = Some (start_event e1)" by simp
  have ev: "http_events (trace_http_request_end e2 s2) =
      http_events s2 @ [end_event e2 (start_event e1)]"
    by (rule start_then_end [OF s1 pend s2 oth t(2)])
  have "end_event e2 (start_event e1) =
      \<lparr>timestamp_ns = ktime e1,
       pid = ucast (drop_bit 32 t),
       tid = ucast (t AND 0xFFFFFFFF),
       method' = bpf_probe_read_user_str (replicate 16 0) 16 (user_mem e1) (PARM1 e1),
       path = bpf_probe_read_user_str (replicate 128 0) 128 (user_mem e1) (PARM2 e1),
       traceparent =
         (if PARM3 e1 \<noteq> 0
          then bpf_probe_read_user_str (replicate 55 0) 55 (user_mem e1) (PARM3 e1)
          else replicate 55 0),
       status_code = ucast (PARM1 e2),
       duration_ns = ktime e2 - ktime e1,
       content_length =
         (if PARM2 e2 \<noteq> 0
          then bpf_probe_read_kernel_u32 (kernel_u32 e2) (PARM2 e2) else 0)\<rparr>"
    using t by (simp add: end_event_def start_event_def)
  with ev s1 s2 start_events [OF s1]
  show "\<exists>s1 s2.
            trace_http_request_start e1 s0 = Inr s1 \<and> http_events s1 = http_events s0 \<and>
            run cs s1 = Inr s2 \<and>
            http_events (trace_http_request_end e2 s2) =
              http_events s2 @
                [\<lparr>timestamp_ns = ktime e1,
                  pid = ucast (drop_bit 32 t),
                  tid = ucast (t AND 0xFFFFFFFF),
                  method' = bpf_probe_read_user_str (replicate 16 0) 16 (user_mem e1) (PARM1 e1),
                  path = bpf_probe_read_user_str (replicate 128 0) 128 (user_mem e1) (PARM2 e1),
                  traceparent =
                    (if PARM3 e1 \<noteq> 0
                     then bpf_probe_read_user_str (replicate 55 0) 55 (user_mem e1) (PARM3 e1)
                     else replicate 55 0),
                  status_code = ucast (PARM1 e2),
                  duration_ns = ktime e2 - ktime e1,
                  content_length =
                    (if PARM2 e2 \<noteq> 0
                     then bpf_probe_read_kernel_u32 (kernel_u32 e2) (PARM2 e2) else 0)\<rparr>]"
    by simp
next
  fix m assume "cstr_at (user_mem e1) (PARM1 e1) m"
  from user_str_cstr [OF this, of 16]
  show "bpf_probe_read_user_str (replicate 16 0) 16 (user_mem e1) (PARM1 e1) = c_field 16 m"
    by simp
next
  fix p assume "cstr_at (user_mem e1) (PARM2 e1) p"
  from user_str_cstr [OF this, of 128]
  show "bpf_probe_read_user_str (replicate 128 0) 128 (user_mem e1) (PARM2 e1) = c_field 128 p"
    by simp
next
  fix h assume "cstr_at (user_mem e1) (PARM3 e1) h \<and> length h < 55"
  then have c: "cstr_at (user_mem e1) (PARM3 e1) h" and len: "length h < 55" by simp_all
  from len have "c_field 55 h = h @ replicate (55 - length h) 0"
    by (simp add: c_field_def)
  with user_str_cstr [OF c, of 55]
  show "bpf_probe_read_user_str (replicate 55 0) 55 (user_mem e1) (PARM3 e1) =
      h @ replicate (55 - length h) 0"
    by simp
qed

text \<open>The theorem at the example of the specification (a well-formed header of 55
  characters), and at a start with a shorter header for the last part.\<close>

theorem start_end_emits_one_witness:
  "card (dom (active_requests bpf_init)) < max_entries \<and>
   (\<exists>s1 s2.
      trace_http_request_start ex_start bpf_init = Inr s1 \<and> http_events s1 = [] \<and>
      run [(FunctionEntry, ex_other)] s1 = Inr s2 \<and>
      http_events (trace_http_request_end ex_end s2) =
        http_events s2 @
          [\<lparr>timestamp_ns = 100, pid = 0, tid = 0x1000000A,
            method' = bytes_of ''GET'' @ replicate 13 0,
            path = bytes_of ''/v1/status'' @ replicate 118 0,
            traceparent =
              bytes_of ''00-4bf92f3577b34da6a3ce929d0e0e4736-00f067aa0ba902b7-0'' @ [0],
            status_code = 200, duration_ns = 150, content_length = 512\<rparr>]) \<and>
   cstr_at (user_mem ex_start_short) (PARM1 ex_start_short) (bytes_of ''GET'') \<and>
   cstr_at (user_mem ex_start_short) (PARM2 ex_start_short) (bytes_of ''/v1/status'') \<and>
   cstr_at (user_mem ex_start_short) (PARM3 ex_start_short)
     (bytes_of ''00-4bf92f35-00f067aa-01'') \<and>
   bpf_probe_read_user_str (replicate 16 0) 16 (user_mem ex_start_short) (PARM1 ex_start_short) =
     bytes_of ''GET'' @ replicate 13 0 \<and>
   bpf_probe_read_user_str (replicate 128 0) 128 (user_mem ex_start_short)
       (PARM2 ex_start_short) =
     bytes_of ''/v1/status'' @ replicate 118 0 \<and>
   bpf_probe_read_user_str (replicate 55 0) 55 (user_mem ex_start_short) (PARM3 ex_start_short) =
     bytes_of ''00-4bf92f35-00f067aa-01'' @ replicate 32 0"
proof -
  have room: "card (dom (active_requests bpf_init)) < max_entries"
    by (simp add: bpf_init_def max_entries_def)
  have t1: "cur_pid_tgid ex_start = 0x1000000A" by (simp add: ex_start_def)
  have t1': "cur_pid_tgid ex_start_short = 0x1000000A" by (simp add: ex_start_short_def)
  have t2: "cur_pid_tgid ex_end = 0x1000000A" by (simp add: ex_end_def)
  have fm: "c_field 16 (bytes_of ''GET'') = bytes_of ''GET'' @ replicate 13 0"
    by (simp add: c_field_def bytes_of_def)
  have fp: "c_field 128 (bytes_of ''/v1/status'') = bytes_of ''/v1/status'' @ replicate 118 0"
    by (simp add: c_field_def bytes_of_def)
  have rm: "bpf_probe_read_user_str (replicate 16 0) 16 (user_mem ex_start) (PARM1 ex_start) =
      bytes_of ''GET'' @ replicate 13 0"
    using user_str_cstr [OF ex_method, of 16] by (simp add: ex_start_def fm)
  have rp: "bpf_probe_read_user_str (replicate 128 0) 128 (user_mem ex_start) (PARM2 ex_start) =
      bytes_of ''/v1/status'' @ replicate 118 0"
    using user_str_cstr [OF ex_path, of 128] by (simp add: ex_start_def fp)
  have rh: "bpf_probe_read_user_str (replicate 55 0) 55 (user_mem ex_start) (PARM3 ex_start) =
      bytes_of ''00-4bf92f3577b34da6a3ce929d0e0e4736-00f067aa0ba902b7-0'' @ [0]"
    using user_str_cstr [OF ex_hdr, of 55] by (simp add: ex_start_def ex_field)
  have h0: "PARM3 ex_start \<noteq> 0" by (simp add: ex_start_def)
  have vals: "ktime ex_start = 100" "ktime ex_end = 250" "PARM1 ex_end = 200"
    "PARM2 ex_end = 0x4000" "kernel_u32 ex_end 0x4000 = Some 512"
    by (simp_all add: ex_start_def ex_end_def)
  have a: "\<exists>s1 s2.
      trace_http_request_start ex_start bpf_init = Inr s1 \<and> http_events s1 = [] \<and>
      run [(FunctionEntry, ex_other)] s1 = Inr s2 \<and>
      http_events (trace_http_request_end ex_end s2) =
        http_events s2 @
          [\<lparr>timestamp_ns = 100, pid = 0, tid = 0x1000000A,
            method' = bytes_of ''GET'' @ replicate 13 0,
            path = bytes_of ''/v1/status'' @ replicate 118 0,
            traceparent =
              bytes_of ''00-4bf92f3577b34da6a3ce929d0e0e4736-00f067aa0ba902b7-0'' @ [0],
            status_code = 200, duration_ns = 150, content_length = 512\<rparr>]"
    using start_end_emits_one [OF t1 t2 disjI2 [OF room] ex_other_task, THEN conjunct1]
    by (simp only: rm rp rh h0 vals bpf_probe_read_kernel_u32_def bpf_init_def)
      (simp add: bpf_init_def)
  have m: "cstr_at (user_mem ex_start_short) (PARM1 ex_start_short) (bytes_of ''GET'')"
    by (simp add: ex_start_short_def ex_method)
  have p: "cstr_at (user_mem ex_start_short) (PARM2 ex_start_short) (bytes_of ''/v1/status'')"
    by (simp add: ex_start_short_def ex_path)
  have h1: "cstr_at (user_mem ex_start_short) (PARM3 ex_start_short)
      (bytes_of ''00-4bf92f35-00f067aa-01'')"
    by (simp add: ex_start_short_def ex_short)
  have h2: "length (bytes_of ''00-4bf92f35-00f067aa-01'') < 55"
    by (simp add: bytes_of_def)
  have fh: "55 - length (bytes_of ''00-4bf92f35-00f067aa-01'') = 32"
    by (simp add: bytes_of_def)
  note short = start_end_emits_one [OF t1' t2 disjI2 [OF room] ex_other_task]
  from short m have bm: "bpf_probe_read_user_str (replicate 16 0) 16 (user_mem ex_start_short)
      (PARM1 ex_start_short) = bytes_of ''GET'' @ replicate 13 0"
    unfolding fm [symmetric] by blast
  from short p have bp: "bpf_probe_read_user_str (replicate 128 0) 128 (user_mem ex_start_short)
      (PARM2 ex_start_short) = bytes_of ''/v1/status'' @ replicate 118 0"
    unfolding fp [symmetric] by blast
  from short h1 h2 have bh: "bpf_probe_read_user_str (replicate 55 0) 55
      (user_mem ex_start_short) (PARM3 ex_start_short) =
      bytes_of ''00-4bf92f35-00f067aa-01'' @ replicate 32 0"
    unfolding fh [symmetric] by blast
  from room a m p h1 bm bp bh show ?thesis by blast
qed

text \<open>C1 as written fails in two ways. When the map is full, the start of a new task is not
  stored and its end sends nothing. And the example header, 55 characters ending in
  \<^verbatim>\<open>-01\<close>, is not kept whole: the record sent holds its first 54 characters and a NUL.\<close>

theorem start_end_drops_or_cuts:
  "card (dom (active_requests full_state)) = max_entries \<and>
   active_requests full_state (cur_pid_tgid ex_start_null) = None \<and>
   trace_http_request_start ex_start_null full_state = Inr full_state \<and>
   trace_http_request_end ex_end full_state = full_state \<and>
   http_events full_state = [] \<and>
   cstr_at (user_mem ex_start) (PARM3 ex_start)
     (bytes_of ''00-4bf92f3577b34da6a3ce929d0e0e4736-00f067aa0ba902b7-01'') \<and>
   trace_http_request_start ex_start bpf_init =
     Inr \<lparr>active_requests = [0x1000000A \<mapsto> start_event ex_start],
          trace_contexts = [0x1000000A \<mapsto> ex_context],
          http_events = []\<rparr> \<and>
   map traceparent
     (http_events
        (trace_http_request_end ex_end
           \<lparr>active_requests = [0x1000000A \<mapsto> start_event ex_start],
            trace_contexts = [0x1000000A \<mapsto> ex_context],
            http_events = []\<rparr>)) =
     [bytes_of ''00-4bf92f3577b34da6a3ce929d0e0e4736-00f067aa0ba902b7-0'' @ [0]]"
proof -
  have c: "card (dom (active_requests full_state)) = max_entries"
    by (simp add: full_state_def card_full_table)
  have n: "active_requests full_state (cur_pid_tgid ex_start_null) = None"
    by (simp add: full_state_def full_table_def ex_start_null_def)
  have "active_requests full_state (cur_pid_tgid ex_end) = None"
    by (simp add: full_state_def full_table_def ex_end_def)
  then have e: "trace_http_request_end ex_end full_state = full_state"
    by (rule end_orphan)
  have "PARM3 ex_start_null = 0" by (simp add: ex_start_null_def)
  then have s: "trace_http_request_start ex_start_null full_state = Inr full_state"
    using c n by (simp add: trace_http_request_start_eq update_full)
  have ev: "http_events full_state = []" by (simp add: full_state_def)
  have hd: "cstr_at (user_mem ex_start) (PARM3 ex_start)
     (bytes_of ''00-4bf92f3577b34da6a3ce929d0e0e4736-00f067aa0ba902b7-01'')"
    using ex_hdr by (simp add: ex_start_def ex_header_def)
  let ?s1 = "\<lparr>active_requests = [0x1000000A \<mapsto> start_event ex_start],
            trace_contexts = [0x1000000A \<mapsto> ex_context],
            http_events = []\<rparr>"
  have "active_requests ?s1 (cur_pid_tgid ex_end) = Some (start_event ex_start)"
    by (simp add: ex_end_def)
  from end_matched [OF this]
  have cut: "map traceparent (http_events (trace_http_request_end ex_end ?s1)) =
     [bytes_of ''00-4bf92f3577b34da6a3ce929d0e0e4736-00f067aa0ba902b7-0'' @ [0]]"
    by (simp add: end_event_def ex_start_field ex_field)
  from c n s e ev hd ex_start_state cut show ?thesis by blast
qed

section \<open>The header decode: what it reads\<close>

text \<open>C2, as the program has it. \<^verbatim>\<open>parse_traceparent\<close> checks neither length nor format: it
  reads from the fixed offsets 3 and 36 whatever the header holds. Every offset it reads is
  below 44, so on an object of at least 44 bytes no read is out of bounds; the only caller,
  \<^verbatim>\<open>trace_http_request_start\<close>, passes its zero-initialised buffer of 55 bytes, so no probe
  hit, whatever the header in user memory, leads to an out-of-bounds read.\<close>

theorem parse_reads_below_44:
  "(44 \<le> length h \<longrightarrow> (\<exists>r. parse_traceparent (Some h) ctx = Inr r)) \<and>
   (\<exists>s'. trace_http_request_start e s = Inr s')"
proof
  show "44 \<le> length h \<longrightarrow> (\<exists>r. parse_traceparent (Some h) ctx = Inr r)"
  proof
    assume len: "44 \<le> length h"
    show "\<exists>r. parse_traceparent (Some h) ctx = Inr r"
    proof (cases ctx)
      case None
      then show ?thesis by (simp add: parse_traceparent_def)
    next
      case (Some c)
      with parse_traceparent_in_bounds [OF len, of c] show ?thesis by auto
    qed
  qed
  show "\<exists>s'. trace_http_request_start e s = Inr s'" by (rule start_Inr)
qed

theorem parse_reads_below_44_witness:
  "44 \<le> length ex_garbage \<and>
   (\<exists>r. parse_traceparent (Some ex_garbage) (Some trace_context_zero) = Inr r)"
proof -
  have "44 \<le> length ex_garbage" by (simp add: ex_garbage_def)
  with parse_reads_below_44 [of ex_garbage "Some trace_context_zero"] show ?thesis by blast
qed

text \<open>C2 as written fails on the function itself: given an empty or a one-byte object, it
  reads at offset 3, outside the object.\<close>

theorem parse_reads_past_short_input:
  "parse_traceparent (Some []) (Some trace_context_zero) = Inl OutOfBounds \<and>
   parse_traceparent (Some [0x30]) (Some trace_context_zero) = Inl OutOfBounds"
proof -
  have "str_scan (obj_rd []) 3 16 = None" "str_scan (obj_rd [0x30]) 3 16 = None"
    by (simp_all add: str_scan_outside)
  then show ?thesis
    by (simp add: parse_traceparent_def bpf_probe_read_kernel_str_def)
qed

section \<open>The header decode: what it rejects\<close>

text \<open>C3, as the program has it. \<^verbatim>\<open>parse_traceparent\<close> has no outcome for a malformed header
  or an unsupported version: it returns \<open>-1\<close> when \<open>header\<close> or \<open>ctx\<close> is a null pointer; on
  non-null pointers it either reads outside the header object or returns \<open>0\<close>, and it
  returns \<open>0\<close> for every header object of at least 44 bytes, whatever its length as a
  string, its separators, its digits or its version.\<close>

theorem parse_rejects_null_only:
  "parse_traceparent None ctx = Inr (- 1, ctx) \<and>
   parse_traceparent header None = Inr (- 1, None) \<and>
   (parse_traceparent (Some h) (Some c) = Inl OutOfBounds \<or>
    (\<exists>c'. parse_traceparent (Some h) (Some c) = Inr (0, Some c'))) \<and>
   (44 \<le> length h \<longrightarrow> (\<exists>c'. parse_traceparent (Some h) (Some c) = Inr (0, Some c')))"
proof -
  have 1: "parse_traceparent None ctx = Inr (- 1, ctx)"
    by (simp add: parse_traceparent_def)
  have 2: "parse_traceparent header None = Inr (- 1, None)"
    by (cases header) (simp_all add: parse_traceparent_def)
  have 3: "parse_traceparent (Some h) (Some c) = Inl OutOfBounds \<or>
      (\<exists>c'. parse_traceparent (Some h) (Some c) = Inr (0, Some c'))"
    by (auto simp: parse_traceparent_def split: sum.splits) (metis fault.exhaust)+
  have 4: "44 \<le> length h \<longrightarrow> (\<exists>c'. parse_traceparent (Some h) (Some c) = Inr (0, Some c'))"
    using parse_traceparent_in_bounds [of h c] by blast
  from 1 2 3 4 show ?thesis by blast
qed

theorem parse_rejects_null_only_witness:
  "44 \<le> length ex_garbage \<and> \<not> traceparent_layout ex_garbage \<and>
   (\<exists>c'. parse_traceparent (Some ex_garbage) (Some trace_context_zero) = Inr (0, Some c'))"
proof -
  have len: "44 \<le> length ex_garbage" by (simp add: ex_garbage_def)
  have bad: "\<not> traceparent_layout ex_garbage"
    by (simp add: ex_garbage_def traceparent_layout_def)
  from parse_rejects_null_only [of None None ex_garbage trace_context_zero] len
  have "\<exists>c'. parse_traceparent (Some ex_garbage) (Some trace_context_zero) = Inr (0, Some c')"
    by blast
  with len bad show ?thesis by blast
qed

text \<open>C3 as written fails at a header of 55 bytes with no separator and no hex digit, and at
  a well-formed header of version \<^verbatim>\<open>01\<close>: the decode of the specification rejects both,
  \<^verbatim>\<open>parse_traceparent\<close> returns 0 on both.\<close>

theorem parse_accepts_malformed:
  "spec_decode ex_garbage = Inl MalformedHeader \<and>
   parse_traceparent (Some ex_garbage) (Some trace_context_zero) =
     Inr (0, Some \<lparr>trace_id = replicate 15 0x7A @ [0], span_id = replicate 7 0x7A @ [0],
                   flags = 0\<rparr>) \<and>
   spec_decode ex_header_v1 = Inl UnsupportedVersion \<and>
   parse_traceparent (Some ex_header_v1) (Some trace_context_zero) = Inr (0, Some ex_context)"
proof -
  have a: "spec_decode ex_garbage = Inl MalformedHeader"
    by (simp add: spec_decode_def ex_garbage_def traceparent_layout_def)
  have "parse_traceparent (Some ex_garbage) (Some trace_context_zero) =
           Inr (0, Some \<lparr>trace_id = take 15 (drop 3 ex_garbage) @ [0],
                         span_id = take 7 (drop 36 ex_garbage) @ [0], flags = 0\<rparr>)"
    by (rule parse_traceparent_copies) (simp_all add: ex_garbage_def)
  then have b: "parse_traceparent (Some ex_garbage) (Some trace_context_zero) =
     Inr (0, Some \<lparr>trace_id = replicate 15 0x7A @ [0], span_id = replicate 7 0x7A @ [0],
                   flags = 0\<rparr>)"
    by (simp add: ex_garbage_def)
  have lay: "traceparent_layout ex_header_v1"
    by (simp add: traceparent_layout_def ex_header_v1_def bytes_of_def is_hex_def)
  then have c: "spec_decode ex_header_v1 = Inl UnsupportedVersion"
    by (simp add: spec_decode_def) (simp add: ex_header_v1_def bytes_of_def)
  have "parse_traceparent (Some ex_header_v1) (Some trace_context_zero) =
           Inr (0, Some \<lparr>trace_id = take 15 (drop 3 ex_header_v1) @ [0],
                         span_id = take 7 (drop 36 ex_header_v1) @ [0], flags = 0\<rparr>)"
  proof (rule parse_traceparent_copies)
    show "44 \<le> length ex_header_v1" by (simp add: ex_header_v1_def bytes_of_def)
    show "\<forall>i. 3 \<le> i \<and> i < 19 \<longrightarrow> ex_header_v1 ! i \<noteq> 0"
      using layout_nonzero [OF lay] by simp
    show "\<forall>i. 36 \<le> i \<and> i < 44 \<longrightarrow> ex_header_v1 ! i \<noteq> 0"
      using layout_nonzero [OF lay] by simp
  qed
  then have d: "parse_traceparent (Some ex_header_v1) (Some trace_context_zero) =
      Inr (0, Some ex_context)"
    by (simp add: ex_context_def ex_header_v1_def bytes_of_def)
  from a b c d show ?thesis by blast
qed

section \<open>The header decode: what it returns\<close>

text \<open>C4, as the program has it. On a header of the layout \<^verbatim>\<open>parse_traceparent\<close> decodes no
  hex digit: \<open>trace_id\<close> holds the first 15 characters of the trace-id field, as the ASCII
  bytes they are, followed by NUL; \<open>span_id\<close> holds the first 7 characters of the span-id
  field followed by NUL; \<open>flags\<close> stays 0. The result is the same on the header itself and on
  its copy in the 55-byte buffer of the start handler.\<close>

theorem parse_copies_ascii:
  assumes "traceparent_layout h"
  shows "parse_traceparent (Some h) (Some trace_context_zero) =
           Inr (0, Some \<lparr>trace_id = take 15 (drop 3 h) @ [0],
                         span_id = take 7 (drop 36 h) @ [0], flags = 0\<rparr>) \<and>
         parse_traceparent (Some (c_field 55 h)) (Some trace_context_zero) =
           Inr (0, Some \<lparr>trace_id = take 15 (drop 3 h) @ [0],
                         span_id = take 7 (drop 36 h) @ [0], flags = 0\<rparr>)"
  using assms by (rule parse_layout_copies)

theorem parse_copies_ascii_witness:
  "traceparent_layout ex_header \<and>
   parse_traceparent (Some ex_header) (Some trace_context_zero) =
     Inr (0, Some \<lparr>trace_id = bytes_of ''4bf92f3577b34da'' @ [0],
                   span_id = bytes_of ''00f067a'' @ [0], flags = 0\<rparr>)"
  using parse_copies_ascii [OF ex_layout] ex_layout
  by (simp add: ex_header_def bytes_of_def)

text \<open>C4 as written fails on the example header: the decode of the specification gives the
  16 and 8 bytes the hex digits denote and the flags byte 1; \<^verbatim>\<open>parse_traceparent\<close> gives 15
  and 7 ASCII characters, each followed by NUL, and the flags byte 0.\<close>

theorem parse_does_not_hex_decode:
  "spec_decode ex_header =
     Inr \<lparr>trace_id = [0x4b, 0xf9, 0x2f, 0x35, 0x77, 0xb3, 0x4d, 0xa6,
                      0xa3, 0xce, 0x92, 0x9d, 0x0e, 0x0e, 0x47, 0x36],
          span_id = [0x00, 0xf0, 0x67, 0xaa, 0x0b, 0xa9, 0x02, 0xb7],
          flags = 0x01\<rparr> \<and>
   parse_traceparent (Some ex_header) (Some trace_context_zero) =
     Inr (0, Some \<lparr>trace_id = [0x34, 0x62, 0x66, 0x39, 0x32, 0x66, 0x33, 0x35,
                               0x37, 0x37, 0x62, 0x33, 0x34, 0x64, 0x61, 0x00],
                   span_id = [0x30, 0x30, 0x66, 0x30, 0x36, 0x37, 0x61, 0x00],
                   flags = 0x00\<rparr>)"
proof -
  have "spec_decode ex_header =
     Inr \<lparr>trace_id = spec_hex_decode (take 32 (drop 3 ex_header)),
          span_id = spec_hex_decode (take 16 (drop 36 ex_header)),
          flags = hd (spec_hex_decode (drop 53 ex_header))\<rparr>"
    using ex_layout by (simp add: spec_decode_def) (simp add: ex_header_def bytes_of_def)
  then have a: "spec_decode ex_header =
     Inr \<lparr>trace_id = [0x4b, 0xf9, 0x2f, 0x35, 0x77, 0xb3, 0x4d, 0xa6,
                      0xa3, 0xce, 0x92, 0x9d, 0x0e, 0x0e, 0x47, 0x36],
          span_id = [0x00, 0xf0, 0x67, 0xaa, 0x0b, 0xa9, 0x02, 0xb7],
          flags = 0x01\<rparr>"
    by (simp add: ex_header_def bytes_of_def spec_hex_val_def)
  from ex_parse have b: "parse_traceparent (Some ex_header) (Some trace_context_zero) =
     Inr (0, Some \<lparr>trace_id = [0x34, 0x62, 0x66, 0x39, 0x32, 0x66, 0x33, 0x35,
                               0x37, 0x37, 0x62, 0x33, 0x34, 0x64, 0x61, 0x00],
                   span_id = [0x30, 0x30, 0x66, 0x30, 0x36, 0x37, 0x61, 0x00],
                   flags = 0x00\<rparr>)"
    by (simp add: ex_context_def bytes_of_def)
  from a b show ?thesis by blast
qed

section \<open>Cleaning up at the end\<close>

text \<open>C5, as the program has it. After any \<^verbatim>\<open>trace_http_request_end\<close> or
  \<^verbatim>\<open>trace_function_exit\<close> of a task, \<^verbatim>\<open>active_requests\<close> holds no entry for it. An end that
  finds a pending entry also removes the trace context of the task. The generic exit never
  touches \<^verbatim>\<open>trace_contexts\<close>: the generic pair stores no context.\<close>

theorem end_and_exit_cleanup:
  "active_requests (trace_http_request_end e s) (cur_pid_tgid e) = None \<and>
   active_requests (trace_function_exit e s) (cur_pid_tgid e) = None \<and>
   (active_requests s (cur_pid_tgid e) \<noteq> None \<longrightarrow>
      trace_contexts (trace_http_request_end e s) (cur_pid_tgid e) = None) \<and>
   trace_contexts (trace_function_exit e s) = trace_contexts s"
proof (cases "active_requests s (cur_pid_tgid e)")
  case None
  then show ?thesis by (simp add: end_orphan exit_orphan)
next
  case (Some ev)
  then show ?thesis by (simp add: end_matched exit_matched)
qed

theorem end_and_exit_cleanup_witness:
  "trace_http_request_start ex_start bpf_init =
     Inr \<lparr>active_requests = [0x1000000A \<mapsto> start_event ex_start],
          trace_contexts = [0x1000000A \<mapsto> ex_context],
          http_events = []\<rparr> \<and>
   trace_contexts
     (trace_http_request_end ex_end
        \<lparr>active_requests = [0x1000000A \<mapsto> start_event ex_start],
         trace_contexts = [0x1000000A \<mapsto> ex_context],
         http_events = []\<rparr>) 0x1000000A = None"
proof -
  let ?s = "\<lparr>active_requests = [0x1000000A \<mapsto> start_event ex_start],
         trace_contexts = [0x1000000A \<mapsto> ex_context],
         http_events = []\<rparr>"
  have t: "cur_pid_tgid ex_end = 0x1000000A" by (simp add: ex_end_def)
  have "active_requests ?s (cur_pid_tgid ex_end) \<noteq> None" by (simp add: t)
  with end_and_exit_cleanup [of ex_end ?s]
  have "trace_contexts (trace_http_request_end ex_end ?s) (cur_pid_tgid ex_end) = None"
    by blast
  with ex_start_state show ?thesis by (simp add: t)
qed

text \<open>C5 as written fails for the generic exit, and for the end that follows it: a start
  with a header, an exit and an end of the same task leave the trace context of the task in
  \<^verbatim>\<open>trace_contexts\<close>.\<close>

theorem exit_leaves_context:
  "run [(HttpHandlerStart, ex_start), (FunctionExit, ex_end)] bpf_init =
     Inr \<lparr>active_requests = Map.empty,
          trace_contexts = [0x1000000A \<mapsto> ex_context],
          http_events = [(start_event ex_start)\<lparr>duration_ns := 150\<rparr>]\<rparr> \<and>
   run [(HttpHandlerStart, ex_start), (FunctionExit, ex_end), (HttpHandlerEnd, ex_end)] bpf_init =
     Inr \<lparr>active_requests = Map.empty,
          trace_contexts = [0x1000000A \<mapsto> ex_context],
          http_events = [(start_event ex_start)\<lparr>duration_ns := 150\<rparr>]\<rparr>"
proof -
  let ?s1 = "\<lparr>active_requests = [0x1000000A \<mapsto> start_event ex_start],
         trace_contexts = [0x1000000A \<mapsto> ex_context],
         http_events = []\<rparr>"
  let ?s2 = "\<lparr>active_requests = Map.empty,
          trace_contexts = [0x1000000A \<mapsto> ex_context],
          http_events = [(start_event ex_start)\<lparr>duration_ns := 150\<rparr>]\<rparr>"
  have t: "cur_pid_tgid ex_end = 0x1000000A" "ktime ex_end = 250"
    by (simp_all add: ex_end_def)
  have ts: "timestamp_ns (start_event ex_start) = 100"
    by (simp add: start_event_def ex_start_def)
  have "active_requests ?s1 (cur_pid_tgid ex_end) = Some (start_event ex_start)"
    by (simp add: t)
  from exit_matched [OF this] have x: "trace_function_exit ex_end ?s1 = ?s2"
    by (simp add: t ts)
  have "active_requests ?s2 (cur_pid_tgid ex_end) = None" by simp
  from end_orphan [OF this] have e: "trace_http_request_end ex_end ?s2 = ?s2" .
  from ex_start_state x e show ?thesis by simp
qed

section \<open>When a trace context is stored\<close>

text \<open>C6, as the program has it. A start with a null header pointer leaves
  \<^verbatim>\<open>trace_contexts\<close> as it was. A start with a non-null header pointer always calls
  \<^verbatim>\<open>bpf_map_update_elem\<close> on \<^verbatim>\<open>trace_contexts\<close> with what \<^verbatim>\<open>parse_traceparent\<close> made of the
  55-byte copy of the header, whatever the header holds (the return code of the parse is not
  looked at, and is 0); so the task has a trace context afterwards whenever the map has room
  for it.\<close>

theorem context_stored_iff_pointer:
  assumes "trace_http_request_start e s = Inr s'"
  shows "(PARM3 e = 0 \<longrightarrow> trace_contexts s' = trace_contexts s) \<and>
         (PARM3 e \<noteq> 0 \<longrightarrow>
            (\<exists>c. parse_traceparent
                   (Some (bpf_probe_read_user_str (replicate 55 0) 55 (user_mem e) (PARM3 e)))
                   (Some trace_context_zero) = Inr (0, Some c) \<and>
                 trace_contexts s' =
                   bpf_map_update_elem max_entries (trace_contexts s) (cur_pid_tgid e) c \<and>
                 (trace_contexts s (cur_pid_tgid e) \<noteq> None \<or>
                  card (dom (trace_contexts s)) < max_entries \<longrightarrow>
                    trace_contexts s' (cur_pid_tgid e) = Some c)))"
proof (cases "PARM3 e = 0")
  case True
  with start_contexts_null [OF assms] show ?thesis by simp
next
  case False
  obtain c where c: "parse_traceparent (Some (traceparent (start_event e)))
      (Some trace_context_zero) = Inr (0, Some c)"
    using start_total_aux by blast
  have tp: "traceparent (start_event e) =
      bpf_probe_read_user_str (replicate 55 0) 55 (user_mem e) (PARM3 e)"
    using False by (simp add: start_event_def)
  have upd: "trace_contexts s' =
      bpf_map_update_elem max_entries (trace_contexts s) (cur_pid_tgid e) c"
    by (rule start_contexts [OF assms False c])
  have "trace_contexts s (cur_pid_tgid e) \<noteq> None \<or>
        card (dom (trace_contexts s)) < max_entries \<longrightarrow>
          trace_contexts s' (cur_pid_tgid e) = Some c"
    by (simp add: upd update_room)
  with False c upd show ?thesis unfolding tp by blast
qed

theorem context_stored_iff_pointer_witness:
  "PARM3 ex_start_null = 0 \<and> PARM3 ex_start \<noteq> 0 \<and>
   card (dom (trace_contexts bpf_init)) < max_entries \<and>
   (\<exists>s'. trace_http_request_start ex_start_null
            \<lparr>active_requests = [0x1000000A \<mapsto> start_event ex_start],
             trace_contexts = [0x1000000A \<mapsto> ex_context],
             http_events = []\<rparr> = Inr s' \<and>
         trace_contexts s' = [0x1000000A \<mapsto> ex_context]) \<and>
   (\<exists>s' c. trace_http_request_start ex_start bpf_init = Inr s' \<and>
            trace_contexts s' (cur_pid_tgid ex_start) = Some c)"
proof -
  let ?s1 = "\<lparr>active_requests = [0x1000000A \<mapsto> start_event ex_start],
             trace_contexts = [0x1000000A \<mapsto> ex_context],
             http_events = []\<rparr>"
  have z: "PARM3 ex_start_null = 0" by (simp add: ex_start_null_def)
  obtain s' where s': "trace_http_request_start ex_start_null ?s1 = Inr s'"
    using start_Inr by blast
  from context_stored_iff_pointer [OF s'] z
  have "trace_contexts s' = [0x1000000A \<mapsto> ex_context]" by simp
  with s' have a: "\<exists>s'. trace_http_request_start ex_start_null ?s1 = Inr s' \<and>
         trace_contexts s' = [0x1000000A \<mapsto> ex_context]"
    by blast
  have nz: "PARM3 ex_start \<noteq> 0" by (simp add: ex_start_def)
  have room: "card (dom (trace_contexts bpf_init)) < max_entries"
    by (simp add: bpf_init_def max_entries_def)
  from context_stored_iff_pointer [OF ex_start_state] nz room
  have "\<exists>c. trace_contexts ?s1 (cur_pid_tgid ex_start) = Some c"
    by blast
  with ex_start_state have b: "\<exists>s' c. trace_http_request_start ex_start bpf_init = Inr s' \<and>
            trace_contexts s' (cur_pid_tgid ex_start) = Some c"
    by blast
  from z nz room a b show ?thesis by blast
qed

text \<open>C6 as written fails at a start whose header is the empty string: the decode has
  nothing to decode, and a zero-filled trace context is stored for the task.\<close>

theorem empty_header_stores_zero_context:
  "cstr_at (user_mem ex_start_empty) (PARM3 ex_start_empty) [] \<and>
   trace_http_request_start ex_start_empty bpf_init =
     Inr \<lparr>active_requests = [0x1000000A \<mapsto> start_event ex_start_empty],
          trace_contexts =
            [0x1000000A \<mapsto> \<lparr>trace_id = replicate 16 0, span_id = replicate 8 0, flags = 0\<rparr>],
          http_events = []\<rparr>"
proof -
  have "cstr_at (user_mem ex_start_empty) (PARM3 ex_start_empty) []"
    using ex_empty by (simp add: ex_start_empty_def)
  with ex_empty_state show ?thesis by (simp add: trace_context_zero_def)
qed

section \<open>An end without a start\<close>

text \<open>C7, as the program has it. An end for a task with no entry in \<^verbatim>\<open>active_requests\<close>
  returns at once: no record is sent and both maps are as before, for every task. The
  program keeps no drop counter, so there is nothing that counts the dropped end: the state
  after the call is the state before it.\<close>

theorem orphaned_end_changes_nothing:
  "active_requests s (cur_pid_tgid e) = None \<Longrightarrow> trace_http_request_end e s = s"
  by (simp add: trace_http_request_end_def bpf_map_lookup_elem_def)

theorem orphaned_end_changes_nothing_witness:
  "active_requests bpf_init (cur_pid_tgid ex_end) = None \<and>
   trace_http_request_end ex_end bpf_init = bpf_init"
proof -
  have h: "active_requests bpf_init (cur_pid_tgid ex_end) = None"
    by (simp add: bpf_init_def)
  from orphaned_end_changes_nothing [OF h] h show ?thesis by simp
qed

text \<open>C7 as written asks for a drop counter to be incremented; the maps of the program
  are all there is, and an orphaned end leaves each of them as it was.\<close>

theorem orphaned_end_counts_nothing:
  "trace_http_request_end ex_end
     \<lparr>active_requests = Map.empty, trace_contexts = Map.empty, http_events = []\<rparr> =
   \<lparr>active_requests = Map.empty, trace_contexts = Map.empty, http_events = []\<rparr>"
  by (simp add: trace_http_request_end_def bpf_map_lookup_elem_def)

section \<open>A second start\<close>

text \<open>C8. When a start of a task is pending (its record is in \<^verbatim>\<open>active_requests\<close>), a second
  start of the task replaces the record, and the end that follows sends the record built
  from the second start: its fields and its time stamp, with the duration counted from the
  second start. Hits of other tasks may come in between.\<close>

theorem second_start_replaces:
  assumes t: "cur_pid_tgid e1 = t" "cur_pid_tgid e2 = t" "cur_pid_tgid e3 = t"
    and s1: "trace_http_request_start e1 s0 = Inr s1"
    and pend: "active_requests s1 t \<noteq> None"
    and oth1: "\<forall>c \<in> set cs1. cur_pid_tgid (snd c) \<noteq> t"
    and oth2: "\<forall>c \<in> set cs2. cur_pid_tgid (snd c) \<noteq> t"
  shows "\<exists>s1' s2 s3.
           run cs1 s1 = Inr s1' \<and> trace_http_request_start e2 s1' = Inr s2 \<and>
           active_requests s2 t = Some (start_event e2) \<and>
           run cs2 s2 = Inr s3 \<and>
           http_events (trace_http_request_end e3 s3) =
             http_events s3 @
               [(start_event e2)
                  \<lparr>duration_ns := ktime e3 - ktime e2,
                   status_code := ucast (PARM1 e3),
                   content_length :=
                     (if PARM2 e3 \<noteq> 0
                      then bpf_probe_read_kernel_u32 (kernel_u32 e3) (PARM2 e3) else 0)\<rparr>]"
proof -
  obtain s1' where s1': "run cs1 s1 = Inr s1'" using run_Inr by blast
  from run_frame_active [OF s1' oth1] pend
  have "active_requests s1' t \<noteq> None" by simp
  then have room: "active_requests s1' (cur_pid_tgid e2) \<noteq> None \<or>
      card (dom (active_requests s1')) < max_entries"
    using t by simp
  obtain s2 where s2: "trace_http_request_start e2 s1' = Inr s2" using start_Inr by blast
  from pending_after_start [OF s2 room] t
  have p2: "active_requests s2 t = Some (start_event e2)" by simp
  obtain s3 where s3: "run cs2 s2 = Inr s3" using run_Inr by blast
  have "http_events (trace_http_request_end e3 s3) =
      http_events s3 @ [end_event e3 (start_event e2)]"
    by (rule start_then_end [OF s2 p2 s3 oth2 t(3)])
  moreover have "end_event e3 (start_event e2) =
      (start_event e2)
        \<lparr>duration_ns := ktime e3 - ktime e2,
         status_code := ucast (PARM1 e3),
         content_length :=
           (if PARM2 e3 \<noteq> 0
            then bpf_probe_read_kernel_u32 (kernel_u32 e3) (PARM2 e3) else 0)\<rparr>"
    by (simp add: end_event_def start_event_def)
  ultimately show ?thesis using s1' s2 p2 s3 by auto
qed

theorem second_start_replaces_witness:
  "trace_http_request_start ex_start bpf_init =
     Inr \<lparr>active_requests = [0x1000000A \<mapsto> start_event ex_start],
          trace_contexts = [0x1000000A \<mapsto> ex_context],
          http_events = []\<rparr> \<and>
   (\<exists>s1' s2 s3.
      run [(FunctionEntry, ex_other)]
        \<lparr>active_requests = [0x1000000A \<mapsto> start_event ex_start],
         trace_contexts = [0x1000000A \<mapsto> ex_context],
         http_events = []\<rparr> = Inr s1' \<and>
      trace_http_request_start ex_start_null s1' = Inr s2 \<and>
      active_requests s2 0x1000000A = Some (start_event ex_start_null) \<and>
      run [] s2 = Inr s3 \<and>
      http_events (trace_http_request_end ex_end s3) =
        http_events s3 @
          [(start_event ex_start_null)
             \<lparr>duration_ns := 70, status_code := 200, content_length := 512\<rparr>]) \<and>
   timestamp_ns (start_event ex_start_null) = 180 \<and>
   traceparent (start_event ex_start_null) = replicate 55 0 \<and>
   timestamp_ns (start_event ex_start) = 100"
proof -
  let ?s1 = "\<lparr>active_requests = [0x1000000A \<mapsto> start_event ex_start],
         trace_contexts = [0x1000000A \<mapsto> ex_context],
         http_events = []\<rparr>"
  have t: "cur_pid_tgid ex_start = 0x1000000A" "cur_pid_tgid ex_start_null = 0x1000000A"
    "cur_pid_tgid ex_end = 0x1000000A"
    by (simp_all add: ex_start_def ex_start_null_def ex_end_def)
  have pend: "active_requests ?s1 0x1000000A \<noteq> None" by simp
  have none: "\<forall>c \<in> set ([] :: (probe \<times> probe_hit) list). cur_pid_tgid (snd c) \<noteq> 0x1000000A"
    by simp
  have vals: "ktime ex_start_null = 180" "ktime ex_end = 250" "PARM1 ex_end = 200"
    "PARM2 ex_end = 0x4000" "kernel_u32 ex_end 0x4000 = Some 512"
    by (simp_all add: ex_start_null_def ex_end_def)
  from second_start_replaces [OF t ex_start_state pend ex_other_task none]
  have "\<exists>s1' s2 s3.
      run [(FunctionEntry, ex_other)] ?s1 = Inr s1' \<and>
      trace_http_request_start ex_start_null s1' = Inr s2 \<and>
      active_requests s2 0x1000000A = Some (start_event ex_start_null) \<and>
      run [] s2 = Inr s3 \<and>
      http_events (trace_http_request_end ex_end s3) =
        http_events s3 @
          [(start_event ex_start_null)
             \<lparr>duration_ns := 70, status_code := 200, content_length := 512\<rparr>]"
    by (simp add: vals bpf_probe_read_kernel_u32_def)
  moreover have "timestamp_ns (start_event ex_start_null) = 180"
    "traceparent (start_event ex_start_null) = replicate 55 0"
    "timestamp_ns (start_event ex_start) = 100"
    by (simp_all add: start_event_def ex_start_null_def ex_start_def)
  ultimately show ?thesis using ex_start_state by blast
qed

section \<open>A start on a full map\<close>

text \<open>C9, as the program has it. When \<^verbatim>\<open>active_requests\<close> holds 10240 entries and none for
  the task, a start leaves \<^verbatim>\<open>active_requests\<close> as it was (no entry changed, none evicted, the
  new record not stored), sends nothing, and leaves the trace contexts of all other tasks as
  they were. Nothing counts the refused insert: the return code of the update is discarded,
  and with a null header pointer the whole state is as before.\<close>

theorem full_map_start_dropped:
  assumes "max_entries \<le> card (dom (active_requests s))"
    and "active_requests s (cur_pid_tgid e) = None"
  shows "\<exists>s'. trace_http_request_start e s = Inr s' \<and>
           active_requests s' = active_requests s \<and>
           http_events s' = http_events s \<and>
           (\<forall>k. k \<noteq> cur_pid_tgid e \<longrightarrow> trace_contexts s' k = trace_contexts s k) \<and>
           (PARM3 e = 0 \<longrightarrow> s' = s)"
proof -
  obtain s' where s': "trace_http_request_start e s = Inr s'"
    using start_Inr by blast
  from start_active [OF s'] assms
  have a: "active_requests s' = active_requests s" by (simp add: update_full)
  have ev: "http_events s' = http_events s" by (rule start_events [OF s'])
  have c: "\<forall>k. k \<noteq> cur_pid_tgid e \<longrightarrow> trace_contexts s' k = trace_contexts s k"
  proof (cases "PARM3 e = 0")
    case True
    with start_contexts_null [OF s'] show ?thesis by simp
  next
    case False
    obtain c where "parse_traceparent (Some (traceparent (start_event e))) (Some trace_context_zero)
        = Inr (0, Some c)"
      using start_total_aux by blast
    from start_contexts [OF s' False this] show ?thesis by (simp add: update_other)
  qed
  have "PARM3 e = 0 \<longrightarrow> s' = s"
  proof
    assume z: "PARM3 e = 0"
    from start_contexts_null [OF s' z] a ev show "s' = s" by simp
  qed
  with s' a ev c show ?thesis by blast
qed

theorem full_map_start_dropped_witness:
  "max_entries \<le> card (dom (active_requests full_state)) \<and>
   active_requests full_state (cur_pid_tgid ex_start) = None \<and>
   (\<exists>s'. trace_http_request_start ex_start full_state = Inr s' \<and>
         active_requests s' = full_table \<and> http_events s' = [] \<and>
         (\<forall>k. k \<noteq> 0x1000000A \<longrightarrow> trace_contexts s' k = None)) \<and>
   PARM3 ex_start_null = 0 \<and>
   (\<exists>s'. trace_http_request_start ex_start_null full_state = Inr s' \<and> s' = full_state)"
proof -
  have c: "max_entries \<le> card (dom (active_requests full_state))"
    by (simp add: full_state_def card_full_table)
  have n: "active_requests full_state (cur_pid_tgid ex_start) = None"
    by (simp add: full_state_def full_table_def ex_start_def)
  have t: "cur_pid_tgid ex_start = 0x1000000A" by (simp add: ex_start_def)
  from full_map_start_dropped [OF c n] obtain s' where
    "trace_http_request_start ex_start full_state = Inr s'"
    "active_requests s' = active_requests full_state"
    "http_events s' = http_events full_state"
    "\<forall>k. k \<noteq> cur_pid_tgid ex_start \<longrightarrow> trace_contexts s' k = trace_contexts full_state k"
    by blast
  then have a: "\<exists>s'. trace_http_request_start ex_start full_state = Inr s' \<and>
         active_requests s' = full_table \<and> http_events s' = [] \<and>
         (\<forall>k. k \<noteq> 0x1000000A \<longrightarrow> trace_contexts s' k = None)"
    by (simp add: t full_state_def)
  have n': "active_requests full_state (cur_pid_tgid ex_start_null) = None"
    by (simp add: full_state_def full_table_def ex_start_null_def)
  have z: "PARM3 ex_start_null = 0" by (simp add: ex_start_null_def)
  from full_map_start_dropped [OF c n'] z
  have b: "\<exists>s'. trace_http_request_start ex_start_null full_state = Inr s' \<and> s' = full_state"
    by blast
  from c n a z b show ?thesis by blast
qed

text \<open>C9 as written asks for a capacity counter to be incremented once; a refused start
  with a null header pointer returns the very state it was given.\<close>

theorem full_map_start_counts_nothing:
  "card (dom (active_requests full_state)) = 10240 \<and>
   active_requests full_state (cur_pid_tgid ex_start_null) = None \<and>
   trace_http_request_start ex_start_null full_state = Inr full_state"
proof -
  have c: "card (dom (active_requests full_state)) = max_entries"
    by (simp add: full_state_def card_full_table)
  have n: "active_requests full_state (cur_pid_tgid ex_start_null) = None"
    by (simp add: full_state_def full_table_def ex_start_null_def)
  have "PARM3 ex_start_null = 0" by (simp add: ex_start_null_def)
  then have "trace_http_request_start ex_start_null full_state = Inr full_state"
    using c n by (simp add: trace_http_request_start_eq update_full)
  with c n show ?thesis by (simp add: max_entries_def)
qed

section \<open>The time stamp of the record sent\<close>

text \<open>C10. For a start whose record is pending and the end that finds it, the record sent
  carries the time of the start in \<open>timestamp_ns\<close>; the time of the end enters it only
  through \<open>duration_ns\<close>, the end time minus the start time in 64-bit arithmetic, so that
  \<open>timestamp_ns + duration_ns\<close> is the end time. The record is the record of the start with
  three fields written at the end: the duration, the status code (the first argument) and
  the content length (read through the second argument); and had the end been observed at
  any other time \<open>k\<close>, the record sent would differ in \<open>duration_ns\<close> and in nothing
  else.\<close>

theorem emitted_timestamp_is_start:
  assumes t: "cur_pid_tgid e1 = t" "cur_pid_tgid e2 = t"
    and s1: "trace_http_request_start e1 s0 = Inr s1"
    and pend: "active_requests s1 t \<noteq> None"
    and oth: "\<forall>c \<in> set cs. cur_pid_tgid (snd c) \<noteq> t"
  shows "\<exists>s2 ev.
           run cs s1 = Inr s2 \<and>
           http_events (trace_http_request_end e2 s2) = http_events s2 @ [ev] \<and>
           timestamp_ns ev = ktime e1 \<and>
           duration_ns ev = ktime e2 - ktime e1 \<and>
           timestamp_ns ev + duration_ns ev = ktime e2 \<and>
           (ktime e1 \<noteq> ktime e2 \<longrightarrow> timestamp_ns ev \<noteq> ktime e2) \<and>
           ev = (start_event e1)
                  \<lparr>duration_ns := ktime e2 - ktime e1,
                   status_code := ucast (PARM1 e2),
                   content_length :=
                     (if PARM2 e2 \<noteq> 0
                      then bpf_probe_read_kernel_u32 (kernel_u32 e2) (PARM2 e2) else 0)\<rparr> \<and>
           (\<forall>k. http_events (trace_http_request_end (e2\<lparr>ktime := k\<rparr>) s2) =
                  http_events s2 @ [ev\<lparr>duration_ns := k - ktime e1\<rparr>])"
proof -
  from pend t have "active_requests s1 (cur_pid_tgid e1) \<noteq> None" by simp
  from start_stored [OF s1 this] t
  have p: "active_requests s1 t = Some (start_event e1)" by simp
  obtain s2 where s2: "run cs s1 = Inr s2" using run_Inr by blast
  let ?ev = "end_event e2 (start_event e1)"
  have sent: "http_events (trace_http_request_end e2 s2) = http_events s2 @ [?ev]"
    by (rule start_then_end [OF s1 p s2 oth t(2)])
  have fields: "timestamp_ns ?ev = ktime e1" "duration_ns ?ev = ktime e2 - ktime e1"
    by (simp_all add: end_event_def start_event_def)
  have whole: "?ev = (start_event e1)
                  \<lparr>duration_ns := ktime e2 - ktime e1,
                   status_code := ucast (PARM1 e2),
                   content_length :=
                     (if PARM2 e2 \<noteq> 0
                      then bpf_probe_read_kernel_u32 (kernel_u32 e2) (PARM2 e2) else 0)\<rparr>"
    by (simp add: end_event_def start_event_def)
  have other: "\<forall>k. http_events (trace_http_request_end (e2\<lparr>ktime := k\<rparr>) s2) =
                  http_events s2 @ [?ev\<lparr>duration_ns := k - ktime e1\<rparr>]"
  proof
    fix k
    have "cur_pid_tgid (e2\<lparr>ktime := k\<rparr>) = t" using t by simp
    from start_then_end [OF s1 p s2 oth this]
    have "http_events (trace_http_request_end (e2\<lparr>ktime := k\<rparr>) s2) =
        http_events s2 @ [end_event (e2\<lparr>ktime := k\<rparr>) (start_event e1)]" .
    moreover have "end_event (e2\<lparr>ktime := k\<rparr>) (start_event e1) =
        ?ev\<lparr>duration_ns := k - ktime e1\<rparr>"
      by (simp add: end_event_def start_event_def)
    ultimately show "http_events (trace_http_request_end (e2\<lparr>ktime := k\<rparr>) s2) =
        http_events s2 @ [?ev\<lparr>duration_ns := k - ktime e1\<rparr>]"
      by simp
  qed
  from s2 sent fields whole other show ?thesis
    by (intro exI [of _ s2] exI [of _ ?ev]) simp
qed

theorem emitted_timestamp_is_start_witness:
  "trace_http_request_start ex_start bpf_init =
     Inr \<lparr>active_requests = [0x1000000A \<mapsto> start_event ex_start],
          trace_contexts = [0x1000000A \<mapsto> ex_context],
          http_events = []\<rparr> \<and>
   (\<exists>s2 ev.
      run [(FunctionEntry, ex_other)]
        \<lparr>active_requests = [0x1000000A \<mapsto> start_event ex_start],
         trace_contexts = [0x1000000A \<mapsto> ex_context],
         http_events = []\<rparr> = Inr s2 \<and>
      http_events (trace_http_request_end ex_end s2) = http_events s2 @ [ev] \<and>
      timestamp_ns ev = 100 \<and> duration_ns ev = 150 \<and>
      timestamp_ns ev + duration_ns ev = 250 \<and> timestamp_ns ev \<noteq> 250 \<and>
      ev = (start_event ex_start)
             \<lparr>duration_ns := 150, status_code := 200, content_length := 512\<rparr> \<and>
      http_events (trace_http_request_end (ex_end\<lparr>ktime := 900\<rparr>) s2) =
        http_events s2 @ [ev\<lparr>duration_ns := 800\<rparr>])"
proof -
  let ?s1 = "\<lparr>active_requests = [0x1000000A \<mapsto> start_event ex_start],
         trace_contexts = [0x1000000A \<mapsto> ex_context],
         http_events = []\<rparr>"
  have t: "cur_pid_tgid ex_start = 0x1000000A" "cur_pid_tgid ex_end = 0x1000000A"
    by (simp_all add: ex_start_def ex_end_def)
  have pend: "active_requests ?s1 0x1000000A \<noteq> None" by simp
  have vals: "ktime ex_start = 100" "ktime ex_end = 250" "PARM1 ex_end = 200"
    "PARM2 ex_end = 0x4000" "kernel_u32 ex_end 0x4000 = Some 512"
    by (simp_all add: ex_start_def ex_end_def)
  from emitted_timestamp_is_start [OF t ex_start_state pend ex_other_task]
  obtain s2 ev where
    r: "run [(FunctionEntry, ex_other)] ?s1 = Inr s2"
    and e: "http_events (trace_http_request_end ex_end s2) = http_events s2 @ [ev]"
    and f: "timestamp_ns ev = ktime ex_start" "duration_ns ev = ktime ex_end - ktime ex_start"
      "timestamp_ns ev + duration_ns ev = ktime ex_end"
    and w: "ev = (start_event ex_start)
                  \<lparr>duration_ns := ktime ex_end - ktime ex_start,
                   status_code := ucast (PARM1 ex_end),
                   content_length :=
                     (if PARM2 ex_end \<noteq> 0
                      then bpf_probe_read_kernel_u32 (kernel_u32 ex_end) (PARM2 ex_end)
                      else 0)\<rparr>"
    and o: "\<forall>k. http_events (trace_http_request_end (ex_end\<lparr>ktime := k\<rparr>) s2) =
                  http_events s2 @ [ev\<lparr>duration_ns := k - ktime ex_start\<rparr>]"
    by blast
  from f have f': "timestamp_ns ev = 100" "duration_ns ev = 150"
    "timestamp_ns ev + duration_ns ev = 250" "timestamp_ns ev \<noteq> 250"
    by (simp_all add: vals)
  from w have w': "ev = (start_event ex_start)
             \<lparr>duration_ns := 150, status_code := 200, content_length := 512\<rparr>"
    by (simp add: vals bpf_probe_read_kernel_u32_def)
  from o have "http_events (trace_http_request_end (ex_end\<lparr>ktime := 900\<rparr>) s2) =
        http_events s2 @ [ev\<lparr>duration_ns := 900 - ktime ex_start\<rparr>]"
    by blast
  then have o': "http_events (trace_http_request_end (ex_end\<lparr>ktime := 900\<rparr>) s2) =
        http_events s2 @ [ev\<lparr>duration_ns := 800\<rparr>]"
    by (simp add: vals)
  from r e f' w' o' ex_start_state show ?thesis by blast
qed

end
